theory Spec2Isabelle
  imports Main "HOL-Library.Word" "HOL-Library.Char_ord" "HOL-Library.List_Lexorder"
    "HOL-Library.Product_Lexorder"
begin

unbundle bit_operations_syntax

section \<open>Bytes and the string helpers of the Go standard library\<close>

type_synonym byte = "8 word"

text \<open>\<^verbatim>\<open>[]byte(s)\<close>: a Go string is a byte sequence, as an Isabelle \<^typ>\<open>string\<close> is.\<close>

definition bytes :: "string \<Rightarrow> byte list" where
  "bytes s = map (\<lambda>c. of_nat (of_char c)) s"

text \<open>\<^verbatim>\<open>strings.HasPrefix\<close> / \<^verbatim>\<open>bytes.HasPrefix\<close>.\<close>

fun HasPrefix :: "'a list \<Rightarrow> 'a list \<Rightarrow> bool" where
  "HasPrefix s [] = True"
| "HasPrefix [] (p # ps) = False"
| "HasPrefix (c # s) (p # ps) = (c = p \<and> HasPrefix s ps)"

text \<open>\<^verbatim>\<open>strings.HasSuffix\<close>.\<close>

definition HasSuffix :: "string \<Rightarrow> string \<Rightarrow> bool" where
  "HasSuffix s suffix = HasPrefix (rev s) (rev suffix)"

text \<open>\<^verbatim>\<open>strings.Contains\<close>: \<open>substr\<close> occurs at some position of \<open>s\<close>.\<close>

fun Contains :: "string \<Rightarrow> string \<Rightarrow> bool" where
  "Contains [] substr = (substr = [])"
| "Contains (c # s) substr = (HasPrefix (c # s) substr \<or> Contains s substr)"

text \<open>\<^verbatim>\<open>strings.Trim(s, cutset)\<close>: all leading and trailing characters of the cutset removed.\<close>

definition Trim :: "string \<Rightarrow> string \<Rightarrow> string" where
  "Trim s cutset =
     rev (dropWhile (\<lambda>c. c \<in> set cutset) (rev (dropWhile (\<lambda>c. c \<in> set cutset) s)))"

text \<open>
  \<^verbatim>\<open>filepath.Ext\<close>: scanning from the end and stopping at a path separator, the suffix
  that starts at the last dot of the last path element; empty when there is no dot.
\<close>

fun Ext_scan :: "string \<Rightarrow> string \<Rightarrow> string" where
  "Ext_scan [] acc = []"
| "Ext_scan (c # cs) acc =
     (if c = CHR ''/'' then []
      else if c = CHR ''.'' then c # acc
      else Ext_scan cs (c # acc))"

definition Ext :: "string \<Rightarrow> string" where
  "Ext path = Ext_scan (rev path) []"

text \<open>
  \<^verbatim>\<open>binary.Write(w, binary.LittleEndian, v)\<close> for a \<^verbatim>\<open>uint32\<close>: the four bytes
  \<^verbatim>\<open>byte(v), byte(v>>8), byte(v>>16), byte(v>>24)\<close>.
\<close>

definition le32 :: "32 word \<Rightarrow> byte list" where
  "le32 v = [ucast v, ucast (drop_bit 8 v), ucast (drop_bit 16 v), ucast (drop_bit 24 v)]"

text \<open>
  The reading of "k bytes, little-endian" that the properties below are stated with:
  the base-256 digits of a number, least significant first.
\<close>

fun le_bytes :: "nat \<Rightarrow> nat \<Rightarrow> nat list" where
  "le_bytes 0 n = []"
| "le_bytes (Suc k) n = (n mod 256) # le_bytes k (n div 256)"

section \<open>Content sniffing: \<^verbatim>\<open>http.DetectContentType\<close>\<close>

text \<open>
  \<^verbatim>\<open>GetMime\<close> hands the first bytes of a file to \<^verbatim>\<open>http.DetectContentType\<close> and
  returns what it answers. The function belongs to the Go standard library (net/http,
  sniff.go); it is written out here with its signature table so that \<^verbatim>\<open>GetMime\<close> can be
  evaluated. A signature is one of five kinds, each with its own \<^verbatim>\<open>match\<close> method, and
  the first signature of the table that matches decides.
\<close>

datatype sniffSig =
    htmlSig "byte list"
  | maskedSig "byte list" "byte list" bool string
  | exactSig "byte list" string
  | mp4Sig
  | textSig

definition isWS :: "byte \<Rightarrow> bool" where
  "isWS b = (b = 0x09 \<or> b = 0x0A \<or> b = 0x0C \<or> b = 0x0D \<or> b = 0x20)"

definition isTT :: "byte \<Rightarrow> bool" where
  "isTT b = (b = 0x20 \<or> b = 0x3E)"

text \<open>The loop of \<^verbatim>\<open>htmlSig.match\<close>: upper-case letters of the signature match either case.\<close>

fun html_loop :: "byte list \<Rightarrow> byte list \<Rightarrow> bool" where
  "html_loop [] data = True"
| "html_loop (b # h) [] = False"
| "html_loop (b # h) (db # data) =
     ((if 0x41 \<le> b \<and> b \<le> 0x5A then db AND 0xDF else db) = b \<and> html_loop h data)"

text \<open>The loop of \<^verbatim>\<open>maskedSig.match\<close>.\<close>

fun masked_loop :: "byte list \<Rightarrow> byte list \<Rightarrow> byte list \<Rightarrow> bool" where
  "masked_loop [] ms data = True"
| "masked_loop (pb # ps) (m # ms) (d # data) = (d AND m = pb \<and> masked_loop ps ms data)"
| "masked_loop (pb # ps) ms data = False"

definition be32 :: "byte list \<Rightarrow> nat" where
  "be32 b = ((unat (b ! 0) * 256 + unat (b ! 1)) * 256 + unat (b ! 2)) * 256 + unat (b ! 3)"

definition textSig_binary :: "byte \<Rightarrow> bool" where
  "textSig_binary b =
     (b \<le> 0x08 \<or> b = 0x0B \<or> (0x0E \<le> b \<and> b \<le> 0x1A) \<or> (0x1C \<le> b \<and> b \<le> 0x1F))"

fun match :: "sniffSig \<Rightarrow> byte list \<Rightarrow> nat \<Rightarrow> string" where
  "match (htmlSig h) data firstNonWS =
     (let data = drop firstNonWS data in
      if length data < length h + 1 then ''''
      else if \<not> html_loop h data then ''''
      else if \<not> isTT (data ! length h) then ''''
      else ''text/html; charset=utf-8'')"
| "match (maskedSig msk pat skipWS ct) data firstNonWS =
     (let data = (if skipWS then drop firstNonWS data else data) in
      if length pat \<noteq> length msk then ''''
      else if length data < length pat then ''''
      else if \<not> masked_loop pat msk data then ''''
      else ct)"
| "match (exactSig sig ct) data firstNonWS = (if HasPrefix data sig then ct else '''')"
| "match mp4Sig data firstNonWS =
     (if length data < 12 then ''''
      else let boxSize = be32 (take 4 data) in
        if length data < boxSize \<or> boxSize mod 4 \<noteq> 0 then ''''
        else if take 4 (drop 4 data) \<noteq> bytes ''ftyp'' then ''''
        else if list_ex (\<lambda>st. take 3 (drop st data) = bytes ''mp4'')
                  (filter (\<lambda>st. st mod 4 = 0 \<and> st \<noteq> 12) [8..<boxSize])
        then ''video/mp4'' else '''')"
| "match textSig data firstNonWS =
     (if list_ex textSig_binary (drop firstNonWS data) then ''''
      else ''text/plain; charset=utf-8'')"

definition sniffSignatures :: "sniffSig list" where
  "sniffSignatures =
    [htmlSig (bytes ''<!DOCTYPE HTML''), htmlSig (bytes ''<HTML''), htmlSig (bytes ''<HEAD''),
     htmlSig (bytes ''<SCRIPT''), htmlSig (bytes ''<IFRAME''), htmlSig (bytes ''<H1''),
     htmlSig (bytes ''<DIV''), htmlSig (bytes ''<FONT''), htmlSig (bytes ''<TABLE''),
     htmlSig (bytes ''<A''), htmlSig (bytes ''<STYLE''), htmlSig (bytes ''<TITLE''),
     htmlSig (bytes ''<B''), htmlSig (bytes ''<BODY''), htmlSig (bytes ''<BR''),
     htmlSig (bytes ''<P''), htmlSig (bytes ''<!--''),
     maskedSig [0xFF, 0xFF, 0xFF, 0xFF, 0xFF] (bytes ''<?xml'') True ''text/xml; charset=utf-8'',
     exactSig (bytes ''%PDF-'') ''application/pdf'',
     exactSig (bytes ''%!PS-Adobe-'') ''application/postscript'',
     maskedSig [0xFF, 0xFF, 0x00, 0x00] [0xFE, 0xFF, 0x00, 0x00] False
       ''text/plain; charset=utf-16be'',
     maskedSig [0xFF, 0xFF, 0x00, 0x00] [0xFF, 0xFE, 0x00, 0x00] False
       ''text/plain; charset=utf-16le'',
     maskedSig [0xFF, 0xFF, 0xFF, 0x00] [0xEF, 0xBB, 0xBF, 0x00] False
       ''text/plain; charset=utf-8'',
     exactSig [0x00, 0x00, 0x01, 0x00] ''image/x-icon'',
     exactSig [0x00, 0x00, 0x02, 0x00] ''image/x-icon'',
     exactSig (bytes ''BM'') ''image/bmp'',
     exactSig (bytes ''GIF87a'') ''image/gif'',
     exactSig (bytes ''GIF89a'') ''image/gif'',
     maskedSig ([0xFF, 0xFF, 0xFF, 0xFF, 0, 0, 0, 0, 0xFF, 0xFF, 0xFF, 0xFF, 0xFF, 0xFF])
       (bytes ''RIFF'' @ [0, 0, 0, 0] @ bytes ''WEBPVP'') False ''image/webp'',
     exactSig ([0x89] @ bytes ''PNG'' @ [0x0D, 0x0A, 0x1A, 0x0A]) ''image/png'',
     exactSig [0xFF, 0xD8, 0xFF] ''image/jpeg'',
     maskedSig [0xFF, 0xFF, 0xFF, 0xFF] (bytes ''.snd'') False ''audio/basic'',
     maskedSig ([0xFF, 0xFF, 0xFF, 0xFF, 0, 0, 0, 0, 0xFF, 0xFF, 0xFF, 0xFF])
       (bytes ''FORM'' @ [0, 0, 0, 0] @ bytes ''AIFF'') False ''audio/aiff'',
     maskedSig [0xFF, 0xFF, 0xFF] (bytes ''ID3'') False ''audio/mpeg'',
     maskedSig [0xFF, 0xFF, 0xFF, 0xFF, 0xFF] (bytes ''OggS'' @ [0]) False ''application/ogg'',
     maskedSig [0xFF, 0xFF, 0xFF, 0xFF, 0xFF, 0xFF, 0xFF, 0xFF]
       (bytes ''MThd'' @ [0, 0, 0, 6]) False ''audio/midi'',
     maskedSig ([0xFF, 0xFF, 0xFF, 0xFF, 0, 0, 0, 0, 0xFF, 0xFF, 0xFF, 0xFF])
       (bytes ''RIFF'' @ [0, 0, 0, 0] @ bytes ''AVI '') False ''video/avi'',
     maskedSig ([0xFF, 0xFF, 0xFF, 0xFF, 0, 0, 0, 0, 0xFF, 0xFF, 0xFF, 0xFF])
       (bytes ''RIFF'' @ [0, 0, 0, 0] @ bytes ''WAVE'') False ''audio/wave'',
     mp4Sig,
     exactSig [0x1A, 0x45, 0xDF, 0xA3] ''video/webm'',
     maskedSig (replicate 34 0x00 @ [0xFF, 0xFF]) (replicate 34 0x00 @ bytes ''LP'') False
       ''application/vnd.ms-fontobject'',
     exactSig [0x00, 0x01, 0x00, 0x00] ''font/ttf'',
     exactSig (bytes ''OTTO'') ''font/otf'',
     exactSig (bytes ''ttcf'') ''font/collection'',
     exactSig (bytes ''wOFF'') ''font/woff'',
     exactSig (bytes ''wOF2'') ''font/woff2'',
     exactSig [0x1F, 0x8B, 0x08] ''application/x-gzip'',
     exactSig (bytes ''PK'' @ [0x03, 0x04]) ''application/zip'',
     exactSig (bytes ''Rar!'' @ [0x1A, 0x07, 0x00]) ''application/x-rar-compressed'',
     exactSig (bytes ''Rar!'' @ [0x1A, 0x07, 0x01, 0x00]) ''application/x-rar-compressed'',
     exactSig ([0x00] @ bytes ''asm'') ''application/wasm'',
     textSig]"

text \<open>The loop over the table, with the fallback of \<^verbatim>\<open>DetectContentType\<close> after it.\<close>

fun first_match :: "sniffSig list \<Rightarrow> byte list \<Rightarrow> nat \<Rightarrow> string" where
  "first_match [] data firstNonWS = ''application/octet-stream''"
| "first_match (sig # sigs) data firstNonWS =
     (let ct = match sig data firstNonWS in
      if ct \<noteq> '''' then ct else first_match sigs data firstNonWS)"

definition sniffLen :: nat where
  "sniffLen = 512"

definition DetectContentType :: "byte list \<Rightarrow> string" where
  "DetectContentType data =
     (let data = (if length data > sniffLen then take sniffLen data else data);
          firstNonWS = length (takeWhile isWS data)
      in first_match sniffSignatures data firstNonWS)"

section \<open>The archive entries of archive/zip that the server reads\<close>

text \<open>
  A Go \<^verbatim>\<open>error\<close> is used by the server only through \<^verbatim>\<open>err != nil\<close> and
  \<^verbatim>\<open>err.Error()\<close>; it is modelled by its message.
\<close>

datatype error = GoError string

fun Error_string :: "error \<Rightarrow> string" where
  "Error_string (GoError msg) = msg"

text \<open>
  \<^verbatim>\<open>zip.File\<close> (a \<^verbatim>\<open>zip.FileHeader\<close> and the access to its data), with the fields the
  server reads. \<open>Modified\<close> is the modification time as \<^verbatim>\<open>Modified.Unix()\<close> returns it,
  an \<^verbatim>\<open>int64\<close>. \<open>OpenRaw\<close> is the result of \<^verbatim>\<open>f.OpenRaw()\<close>: an error, or the bytes
  that the returned reader yields, which are the stored (still compressed) bytes of the
  entry. \<open>Open\<close> is the result of \<^verbatim>\<open>f.Open()\<close>: an error, or the bytes that the
  decompressing reader yields. The archive on disk is taken not to change while it is
  served, so both are fixed per entry. \<open>headerOffset\<close> is the position of the entry in
  the archive; it tells two entries of one archive apart, so that a map keyed by the
  record is keyed by the identity of the \<^verbatim>\<open>*zip.File\<close>.
\<close>

record zip_file =
  Name :: string
  Method :: "16 word"
  Modified :: "64 word"
  CRC32 :: "32 word"
  UncompressedSize64 :: "64 word"
  headerOffset :: "64 word"
  ModeIsDir :: bool
  OpenRaw :: "error + byte list"
  Open :: "error + byte list"

definition Store :: "16 word" where
  "Store = 0"

definition Deflate :: "16 word" where
  "Deflate = 8"

text \<open>
  \<^verbatim>\<open>fileListEntry\<close>, the private index entry of \<^verbatim>\<open>zip.Reader\<close>: \<open>file'\<close> (the field \<^verbatim>\<open>file\<close>) is a
  \<^verbatim>\<open>*zip.File\<close> and may be nil.
\<close>

record fileListEntry =
  name :: string
  file' :: "zip_file option"
  isDir :: bool
  isDup :: bool

text \<open>
  The two concrete types behind the \<^verbatim>\<open>fs.File\<close> that \<^verbatim>\<open>zip.Reader.Open\<close> returns:
  \<^verbatim>\<open>*openDir\<close> with its fields \<^verbatim>\<open>e\<close> and \<^verbatim>\<open>files\<close>, which implements
  \<^verbatim>\<open>fs.ReadDirFile\<close>, and \<^verbatim>\<open>*checksumReader\<close> with its field \<^verbatim>\<open>f\<close> and the bytes its
  \<^verbatim>\<open>Read\<close> yields, which does not.
\<close>

datatype fs_file =
    openDir fileListEntry "fileListEntry list"
  | checksumReader "zip_file option" "byte list"

text \<open>\<^verbatim>\<open>_, ok := f.(fs.ReadDirFile)\<close>.\<close>

fun is_ReadDirFile :: "fs_file \<Rightarrow> bool" where
  "is_ReadDirFile (openDir e files) = True"
| "is_ReadDirFile (checksumReader f content) = False"

text \<open>
  What \<^verbatim>\<open>io.Copy(w, f)\<close> reads from the handle: \<^verbatim>\<open>Read\<close> on a directory fails at once,
  so nothing is copied.
\<close>

fun Read_all :: "fs_file \<Rightarrow> byte list" where
  "Read_all (openDir e files) = []"
| "Read_all (checksumReader f content) = content"

record ZipEntry =
  File :: fs_file
  Entry :: "zip_file option"

section \<open>The response writer\<close>

text \<open>
  A handler acts on its \<^verbatim>\<open>http.ResponseWriter\<close> only through calls of the standard
  library. The writer is modelled by the sequence of these calls, in program order.
  A header value is a string, or the time \<open>t\<close> formatted by
  \<^verbatim>\<open>t.Format(http.TimeFormat)\<close>.
\<close>

datatype header_value = Str string | TimeFormat "64 word"

record DirEntry =
  entry_name :: string
  entry_isDir :: bool

datatype call =
    Header_Set string header_value
  | Write "byte list"
  | Error string nat
  | Redirect string nat
  | ExecuteTemplate string string "DirEntry list"

type_synonym ResponseWriter = "call list"

definition StatusOK :: nat where "StatusOK = 200"
definition StatusMovedPermanently :: nat where "StatusMovedPermanently = 301"
definition StatusNotFound :: nat where "StatusNotFound = 404"
definition StatusInternalServerError :: nat where "StatusInternalServerError = 500"

text \<open>The bytes that the handler itself wrote to the body, by \<^verbatim>\<open>Write\<close>, in order.\<close>

fun written :: "ResponseWriter \<Rightarrow> byte list" where
  "written [] = []"
| "written (Write b # w) = b @ written w"
| "written (c # w) = written w"

text \<open>
  The status line of the response. The first call that writes to the connection fixes
  it: \<^verbatim>\<open>Write\<close> and the template's output send status 200 when no header was written
  before, \<^verbatim>\<open>http.Error\<close> and \<^verbatim>\<open>http.Redirect\<close> call \<^verbatim>\<open>WriteHeader(code)\<close>, and a
  \<^verbatim>\<open>WriteHeader\<close> after the first has no effect. A handler that returns without writing
  gets status 200.
\<close>

fun status :: "ResponseWriter \<Rightarrow> nat" where
  "status [] = StatusOK"
| "status (Header_Set k v # w) = status w"
| "status (Write b # w) = StatusOK"
| "status (Error msg code # w) = code"
| "status (Redirect url code # w) = code"
| "status (ExecuteTemplate t p es # w) = StatusOK"

text \<open>The calls that put bytes of a file or of a listing into the body.\<close>

fun sends_content :: "call \<Rightarrow> bool" where
  "sends_content (Write b) = True"
| "sends_content (ExecuteTemplate t p es) = True"
| "sends_content c = False"

text \<open>The call that renders a directory listing.\<close>

fun is_listing :: "call \<Rightarrow> bool" where
  "is_listing (ExecuteTemplate t p es) = True"
| "is_listing c = False"

section \<open>\<^verbatim>\<open>zipFS\<close> and \<^verbatim>\<open>GetMime\<close>\<close>

text \<open>
  \<^verbatim>\<open>zip.Reader\<close>: the entries of the archive in the order of its central directory.
\<close>

record zip_reader =
  Files :: "zip_file list"

text \<open>
  \<^verbatim>\<open>zipFS\<close>: the embedded reader and the content-type cache, keyed by \<^verbatim>\<open>*zip.File\<close>.
  The lock \<^verbatim>\<open>rw\<close> is not a field here: it delimits the atomic steps of the section on
  concurrent calls.
  \<open>sniffed\<close> is not a field of the program: it logs, in order, the entries for which
  \<^verbatim>\<open>GetMime\<close> ran \<^verbatim>\<open>http.DetectContentType\<close>, so that the runs can be counted.
\<close>

record zipFS =
  Reader :: zip_reader
  mimeCache :: "zip_file \<rightharpoonup> string"
  sniffed :: "zip_file list"

definition newZipFS :: "zip_reader \<Rightarrow> zipFS" where
  "newZipFS z = \<lparr>Reader = z, mimeCache = Map.empty, sniffed = []\<rparr>"

datatype panic = NilDereference | PanicError error | PanicString string

text \<open>
  \<^verbatim>\<open>mime.TypeByExtension\<close> answers from a table built from the operating system's files;
  the table is a parameter: a function from the extension to the type, empty when the
  extension is unknown.
\<close>

type_synonym mime_table = "string \<Rightarrow> string"

definition GetMime :: "mime_table \<Rightarrow> zipFS \<Rightarrow> zip_file \<Rightarrow> panic + (string \<times> zipFS)" where
  "GetMime TypeByExtension z f =
     (case mimeCache z f of
        Some x \<Rightarrow> Inr (x, z)
      | None \<Rightarrow>
          let ctype = TypeByExtension (Ext (Name f)) in
          if ctype \<noteq> '''' then Inr (ctype, z\<lparr>mimeCache := (mimeCache z)(f \<mapsto> ctype)\<rparr>)
          else
            (case Open f of
               Inl err \<Rightarrow> Inl (PanicError err)
             | Inr r \<Rightarrow>
                 let chunk = take 512 r;
                     ctype = DetectContentType chunk
                 in Inr (ctype, z\<lparr>mimeCache := (mimeCache z)(f \<mapsto> ctype),
                                  sniffed := sniffed z @ [f]\<rparr>)))"

section \<open>\<^verbatim>\<open>SendFile\<close>\<close>

text \<open>
  The request, as far as the handlers read it: \<^verbatim>\<open>r.URL.Path\<close>,
  \<^verbatim>\<open>r.Header.Get("Accept-Encoding")\<close>, and the FastCGI parameters
  \<^verbatim>\<open>SCRIPT_FILENAME\<close> and \<^verbatim>\<open>PATH_TRANSLATED\<close> of \<^verbatim>\<open>fcgi.ProcessEnv(r)\<close>.
\<close>

record request =
  URL_Path :: string
  Accept_Encoding :: string
  SCRIPT_FILENAME :: string
  PATH_TRANSLATED :: string

definition gzip_header :: "byte list" where
  "gzip_header = [0x1f, 0x8b, 0x08, 0x00]"

text \<open>
  \<^verbatim>\<open>SendFile\<close> of the FastCGI server. \<^verbatim>\<open>entry.Entry.Modified\<close> in its first statement
  dereferences \<^verbatim>\<open>entry.Entry\<close>: a nil pointer panics there. The result is the panic, or
  the cache and the writer after the call.
\<close>

definition SendFile ::
  "mime_table \<Rightarrow> zipFS \<Rightarrow> ZipEntry \<Rightarrow> ResponseWriter \<Rightarrow> request
     \<Rightarrow> panic + (zipFS \<times> ResponseWriter)" where
  "SendFile tbl z entry w r =
     (case Entry entry of
        None \<Rightarrow> Inl NilDereference
      | Some f \<Rightarrow>
          let w = w @ [Header_Set ''Last-Modified'' (TimeFormat (Modified f))] in
          (case GetMime tbl z f of
             Inl p \<Rightarrow> Inl p
           | Inr (ctype, z) \<Rightarrow>
               let w = w @ [Header_Set ''Content-Type'' (Str ctype)] in
               if \<not> (Method f = Deflate \<and> Contains (Accept_Encoding r) ''gzip'') then
                 Inr (z, w @ [Write (Read_all (File entry))])
               else
                 let w = w @ [Header_Set ''Content-Encoding'' (Str ''gzip'')];
                     w = w @ [Write gzip_header];
                     mtime = Modified f;
                     w = w @ [Write (le32 (ucast mtime))];
                     w = w @ [Write [0x00, 0xff]]
                 in
                 (case OpenRaw f of
                    Inl err \<Rightarrow> Inr (z, w @ [Error (Error_string err) StatusInternalServerError])
                  | Inr src \<Rightarrow>
                      let w = w @ [Write src];
                          w = w @ [Write (le32 (CRC32 f) @
                                    le32 (ucast (UncompressedSize64 f mod 0x100000000)))]
                      in Inr (z, w))))"

section \<open>Paths: the functions of \<^verbatim>\<open>path\<close> and \<^verbatim>\<open>io/fs\<close> that are used\<close>

text \<open>\<^verbatim>\<open>strings.Split(s, "/")\<close> and \<^verbatim>\<open>strings.Join(elems, "/")\<close>.\<close>

fun split_slash :: "string \<Rightarrow> string list" where
  "split_slash [] = [[]]"
| "split_slash (c # s) =
     (if c = CHR ''/'' then [] # split_slash s
      else (case split_slash s of [] \<Rightarrow> [[c]] | x # xs \<Rightarrow> (c # x) # xs))"

fun join_slash :: "string list \<Rightarrow> string" where
  "join_slash [] = []"
| "join_slash [x] = x"
| "join_slash (x # y # ys) = x @ CHR ''/'' # join_slash (y # ys)"

text \<open>
  \<^verbatim>\<open>path.Clean\<close>, element by element: empty elements and \<^verbatim>\<open>.\<close> are dropped; \<^verbatim>\<open>..\<close>
  removes the element before it, is dropped at the root of a rooted path, and is kept
  at the start of a relative one. \<open>out\<close> holds the elements kept so far, last first.
\<close>

fun clean_elems :: "bool \<Rightarrow> string list \<Rightarrow> string list \<Rightarrow> string list" where
  "clean_elems rooted out [] = rev out"
| "clean_elems rooted out (c # cs) =
     (if c = [] \<or> c = ''.'' then clean_elems rooted out cs
      else if c = ''..'' then
        (case out of
           [] \<Rightarrow> if rooted then clean_elems rooted [] cs else clean_elems rooted [c] cs
         | d # ds \<Rightarrow> if d = ''..'' then clean_elems rooted (c # out) cs
                     else clean_elems rooted ds cs)
      else clean_elems rooted (c # out) cs)"

definition Clean :: "string \<Rightarrow> string" where
  "Clean p =
     (if p = [] then ''.''
      else let rooted = (hd p = CHR ''/'');
               elems = clean_elems rooted [] (split_slash p)
           in if rooted then CHR ''/'' # join_slash elems
              else if elems = [] then ''.'' else join_slash elems)"

text \<open>\<^verbatim>\<open>path.Join(a, b)\<close>: empty elements are ignored, the rest joined and cleaned.\<close>

definition Join :: "string \<Rightarrow> string \<Rightarrow> string" where
  "Join a b =
     (if a = [] \<and> b = [] then []
      else if a = [] then Clean b
      else if b = [] then Clean a
      else Clean (a @ CHR ''/'' # b))"

text \<open>\<^verbatim>\<open>path.Base\<close>.\<close>

definition Base :: "string \<Rightarrow> string" where
  "Base p =
     (if p = [] then ''.''
      else let p = rev (dropWhile (\<lambda>c. c = CHR ''/'') (rev p));
               p = rev (takeWhile (\<lambda>c. c \<noteq> CHR ''/'') (rev p))
           in if p = [] then ''/'' else p)"

text \<open>
  \<^verbatim>\<open>utf8.ValidString\<close>, on the values of the bytes: the string consists of well-formed
  UTF-8 sequences (no overlong forms, no surrogates, nothing above U+10FFFF).
\<close>

definition utf8_cont :: "nat \<Rightarrow> bool" where
  "utf8_cont b = (0x80 \<le> b \<and> b \<le> 0xBF)"

fun utf8_valid :: "nat list \<Rightarrow> bool" where
  "utf8_valid [] = True"
| "utf8_valid [a] = (a < 0x80)"
| "utf8_valid [a, b] =
     (if a < 0x80 then utf8_valid [b] else 0xC2 \<le> a \<and> a \<le> 0xDF \<and> utf8_cont b)"
| "utf8_valid [a, b, c] =
     (if a < 0x80 then utf8_valid [b, c]
      else if 0xC2 \<le> a \<and> a \<le> 0xDF then utf8_cont b \<and> utf8_valid [c]
      else 0xE0 \<le> a \<and> a \<le> 0xEF \<and>
           (if a = 0xE0 then 0xA0 \<le> b \<and> b \<le> 0xBF
            else if a = 0xED then 0x80 \<le> b \<and> b \<le> 0x9F else utf8_cont b) \<and> utf8_cont c)"
| "utf8_valid (a # b # c # d # bs) =
     (if a < 0x80 then utf8_valid (b # c # d # bs)
      else if 0xC2 \<le> a \<and> a \<le> 0xDF then utf8_cont b \<and> utf8_valid (c # d # bs)
      else if 0xE0 \<le> a \<and> a \<le> 0xEF then
           (if a = 0xE0 then 0xA0 \<le> b \<and> b \<le> 0xBF
            else if a = 0xED then 0x80 \<le> b \<and> b \<le> 0x9F else utf8_cont b) \<and> utf8_cont c \<and>
           utf8_valid (d # bs)
      else 0xF0 \<le> a \<and> a \<le> 0xF4 \<and>
           (if a = 0xF0 then 0x90 \<le> b \<and> b \<le> 0xBF
            else if a = 0xF4 then 0x80 \<le> b \<and> b \<le> 0x8F else utf8_cont b) \<and>
           utf8_cont c \<and> utf8_cont d \<and> utf8_valid bs)"

definition ValidString :: "string \<Rightarrow> bool" where
  "ValidString s = utf8_valid (map of_char s)"

text \<open>
  \<^verbatim>\<open>fs.ValidPath\<close>: the name is valid UTF-8 and it is \<^verbatim>\<open>.\<close>, or each of its
  slash-separated elements is neither empty nor \<^verbatim>\<open>.\<close> nor \<^verbatim>\<open>..\<close>.
\<close>

definition ValidPath :: "string \<Rightarrow> bool" where
  "ValidPath n =
     (if \<not> ValidString n then False
      else n = ''.'' \<or>
           list_all (\<lambda>elem. elem \<noteq> [] \<and> elem \<noteq> ''.'' \<and> elem \<noteq> ''..'') (split_slash n))"

section \<open>\<^verbatim>\<open>zip.Reader.Open\<close> and its file list\<close>

text \<open>
  \<^verbatim>\<open>zip.Reader.Open\<close> belongs to the standard library (archive/zip, reader.go). The
  server depends on its private data: \<^verbatim>\<open>FindRaw\<close> reads, by reflection, the field
  \<^verbatim>\<open>e.file\<close> of an \<^verbatim>\<open>openDir\<close> and the field \<^verbatim>\<open>f\<close> of a \<^verbatim>\<open>checksumReader\<close> (see also
  the notes in asdf.md). The functions involved are therefore written out.
\<close>

text \<open>\<^verbatim>\<open>toValidName\<close>: backslashes become slashes, the name is cleaned, one leading
  slash and all leading \<^verbatim>\<open>../\<close> are removed.\<close>

fun strip_dotdot :: "string \<Rightarrow> string" where
  "strip_dotdot (a # b # c # p) =
     (if a = CHR ''.'' \<and> b = CHR ''.'' \<and> c = CHR ''/'' then strip_dotdot p else a # b # c # p)"
| "strip_dotdot p = p"

definition toValidName :: "string \<Rightarrow> string" where
  "toValidName n =
     (let n = map (\<lambda>c. if c = CHR 0x5C then CHR ''/'' else c) n;
          p = Clean n;
          p = (if HasPrefix p ''/'' then drop 1 p else p)
      in strip_dotdot p)"

text \<open>
  The private \<^verbatim>\<open>split\<close> of archive/zip: directory part and last element of a name, and
  whether the name ended in a slash.
\<close>

definition split :: "string \<Rightarrow> string \<times> string \<times> bool" where
  "split n =
     (let isDir = (n \<noteq> [] \<and> last n = CHR ''/'');
          n = (if isDir then butlast n else n);
          elem = rev (takeWhile (\<lambda>c. c \<noteq> CHR ''/'') (rev n));
          rest = rev (dropWhile (\<lambda>c. c \<noteq> CHR ''/'') (rev n))
      in if rest = [] then (''.'', n, isDir) else (butlast rest, elem, isDir))"

text \<open>
  The loop \<^verbatim>\<open>for dir := path.Dir(name); dir != "."; dir = path.Dir(dir)\<close> of
  \<^verbatim>\<open>initFileList\<close>. Its \<open>name\<close> is a cleaned relative path \<open>c1/.../ck\<close>, on which
  \<^verbatim>\<open>path.Dir\<close> drops the last element: the loop visits \<open>c1/.../c(k-1)\<close>, ..., \<open>c1\<close>.
\<close>

definition parent_dirs :: "string \<Rightarrow> string list" where
  "parent_dirs n =
     (let elems = split_slash n in map (\<lambda>k. join_slash (take k elems)) (rev [1..<length elems]))"

text \<open>
  The state of \<^verbatim>\<open>initFileList\<close>: the list under construction and its three maps
  (\<open>dirs\<close>, a set in the original, keeps the order of insertion here).
\<close>

record fileList_state =
  fileList :: "fileListEntry list"
  files :: "string \<rightharpoonup> nat"
  knownDirs :: "string \<rightharpoonup> nat"
  dirs :: "string list"

definition mark_dup :: "nat \<Rightarrow> fileListEntry list \<Rightarrow> fileListEntry list" where
  "mark_dup idx fl = fl[idx := (fl ! idx)\<lparr>isDup := True\<rparr>]"

text \<open>The body of the first loop, over \<^verbatim>\<open>r.File\<close>.\<close>

definition add_file :: "fileList_state \<Rightarrow> zip_file \<Rightarrow> fileList_state" where
  "add_file st f =
     (let isDir' = (Name f \<noteq> [] \<and> last (Name f) = CHR ''/'');
          n = toValidName (Name f)
      in if n = [] then st
         else (case files st n of
             Some idx \<Rightarrow> st\<lparr>fileList := mark_dup idx (fileList st)\<rparr>
           | None \<Rightarrow>
              (case knownDirs st n of
                 Some idx \<Rightarrow> st\<lparr>fileList := mark_dup idx (fileList st)\<rparr>
               | None \<Rightarrow>
                   let ds = dirs st @ filter (\<lambda>d. d \<notin> set (dirs st)) (remdups (parent_dirs n));
                       idx = length (fileList st);
                       entry = \<lparr>name = n, file' = Some f, isDir = isDir', isDup = False\<rparr>
                   in if isDir'
                      then st\<lparr>fileList := fileList st @ [entry], dirs := ds,
                              knownDirs := (knownDirs st)(n \<mapsto> idx)\<rparr>
                      else st\<lparr>fileList := fileList st @ [entry], dirs := ds,
                              files := (files st)(n \<mapsto> idx)\<rparr>)))"

text \<open>The body of the second loop, over \<open>dirs\<close>: directories without an entry of
  their own are added with a nil \<^verbatim>\<open>file\<close>.\<close>

definition add_dir :: "fileList_state \<Rightarrow> string \<Rightarrow> fileList_state" where
  "add_dir st dir =
     (case knownDirs st dir of
        Some idx \<Rightarrow> st
      | None \<Rightarrow>
         (case files st dir of
            Some idx \<Rightarrow> st\<lparr>fileList := mark_dup idx (fileList st)\<rparr>
          | None \<Rightarrow>
              st\<lparr>fileList := fileList st @
                     [\<lparr>name = dir, file' = None, isDir = True, isDup = False\<rparr>]\<rparr>))"

text \<open>The key of \<^verbatim>\<open>fileEntryCompare\<close>: directory part first, then the last element.\<close>

definition sort_name :: "fileListEntry \<Rightarrow> string \<times> string" where
  "sort_name e = (case split (name e) of (dir, elem, d) \<Rightarrow> (dir, elem))"

definition initFileList :: "zip_reader \<Rightarrow> fileListEntry list" where
  "initFileList r =
     (let st = foldl add_file
                 \<lparr>fileList = [], files = Map.empty, knownDirs = Map.empty, dirs = []\<rparr> (Files r);
          st = foldl add_dir st (dirs st)
      in sort_key sort_name (fileList st))"

text \<open>
  The invariant of the file list: an entry that is not a directory carries a
  \<^verbatim>\<open>*zip.File\<close>.
\<close>

definition has_file :: "fileListEntry \<Rightarrow> bool" where
  "has_file e = (isDir e \<or> file' e \<noteq> None)"

definition dotFile :: fileListEntry where
  "dotFile = \<lparr>name = ''./'', file' = None, isDir = True, isDup = False\<rparr>"

text \<open>
  \<^verbatim>\<open>openLookup\<close>: a binary search for the entry of that name in the sorted list, whose
  names are pairwise distinct; written as a search from the front.
\<close>

definition openLookup :: "zip_reader \<Rightarrow> string \<Rightarrow> fileListEntry option" where
  "openLookup r n =
     (if n = ''.'' then Some dotFile
      else find (\<lambda>e. name e = n \<or> name e = n @ ''/'') (initFileList r))"

text \<open>\<^verbatim>\<open>openReadDir\<close>: the entries whose directory part is \<open>dir\<close>, in sorted order.\<close>

definition openReadDir :: "zip_reader \<Rightarrow> string \<Rightarrow> fileListEntry list" where
  "openReadDir r dir = filter (\<lambda>e. fst (split (name e)) = dir) (initFileList r)"

definition PathError :: "string \<Rightarrow> string \<Rightarrow> string \<Rightarrow> error" where
  "PathError op p err = GoError (op @ '' '' @ p @ '': '' @ err)"

text \<open>
  \<^verbatim>\<open>zip.Reader.Open\<close>. For an entry that is not a directory it calls \<^verbatim>\<open>e.file.Open()\<close>,
  which dereferences \<^verbatim>\<open>e.file\<close>.
\<close>

definition Reader_Open :: "zip_reader \<Rightarrow> string \<Rightarrow> panic + (error + fs_file)" where
  "Reader_Open r n =
     (if \<not> ValidPath n then Inr (Inl (PathError ''open'' n ''invalid argument''))
      else (case openLookup r n of
          None \<Rightarrow> Inr (Inl (PathError ''open'' n ''file does not exist''))
        | Some e \<Rightarrow>
            if isDir e then Inr (Inr (openDir e (openReadDir r n)))
            else (case file' e of
                None \<Rightarrow> Inl NilDereference
              | Some f \<Rightarrow>
                 (case Open f of
                    Inl err \<Rightarrow> Inr (Inl err)
                  | Inr rc \<Rightarrow> Inr (Inr (checksumReader (Some f) rc))))))"

text \<open>
  \<^verbatim>\<open>fileListEntry.stat\<close> and the name and kind it reports, and \<^verbatim>\<open>ReadDir(-1)\<close> of an
  \<^verbatim>\<open>openDir\<close>: the entries in order, or the error of the first entry that is marked
  as duplicate or whose reported name is \<^verbatim>\<open>.\<close> or not a valid path.
\<close>

definition stat :: "fileListEntry \<Rightarrow> panic + (error + DirEntry)" where
  "stat e =
     (if isDup e then Inr (Inl (GoError (name e @ '': duplicate entries in zip file'')))
      else if \<not> isDir e then
        (case file' e of
           None \<Rightarrow> Inl NilDereference
         | Some f \<Rightarrow> Inr (Inr \<lparr>entry_name = Base (Name f), entry_isDir = ModeIsDir f\<rparr>))
      else Inr (Inr \<lparr>entry_name = fst (snd (split (name e))), entry_isDir = True\<rparr>))"

fun stat_all :: "string \<Rightarrow> fileListEntry list \<Rightarrow> panic + (error + DirEntry list)" where
  "stat_all dir [] = Inr (Inr [])"
| "stat_all dir (e # es) =
     (case stat e of
        Inl p \<Rightarrow> Inl p
      | Inr (Inl err) \<Rightarrow> Inr (Inl err)
      | Inr (Inr d) \<Rightarrow>
         if entry_name d = ''.'' \<or> \<not> ValidPath (entry_name d)
         then Inr (Inl (PathError ''readdir'' dir (''invalid file name: '' @ name e)))
         else
          (case stat_all dir es of
             Inl p \<Rightarrow> Inl p
           | Inr (Inl err) \<Rightarrow> Inr (Inl err)
           | Inr (Inr ds) \<Rightarrow> Inr (Inr (d # ds))))"

fun ReadDir :: "fs_file \<Rightarrow> panic + (error + DirEntry list)" where
  "ReadDir (openDir e fs) = stat_all (name e) fs"
| "ReadDir (checksumReader f rc) = Inl (PanicString ''interface conversion'')"

section \<open>\<^verbatim>\<open>FindRaw\<close>, \<^verbatim>\<open>SendDirectory\<close> and the handlers\<close>

text \<open>
  \<^verbatim>\<open>FindRaw\<close> (and \<^verbatim>\<open>Find\<close> of main.go, which has the same body): open the name, then
  take \<^verbatim>\<open>e.file\<close> when the handle has a field \<^verbatim>\<open>e\<close> and the field \<^verbatim>\<open>f\<close> otherwise.
\<close>

definition FindRaw :: "zip_reader \<Rightarrow> string \<Rightarrow> panic + (error + ZipEntry)" where
  "FindRaw z n =
     (case Reader_Open z n of
        Inl p \<Rightarrow> Inl p
      | Inr (Inl err) \<Rightarrow> Inr (Inl err)
      | Inr (Inr f) \<Rightarrow>
          Inr (Inr \<lparr>File = f,
                    Entry = (case f of openDir e fs \<Rightarrow> file' e | checksumReader zf rc \<Rightarrow> zf)\<rparr>))"

definition SendDirectory ::
  "zipFS \<Rightarrow> ZipEntry \<Rightarrow> ResponseWriter \<Rightarrow> request \<Rightarrow> panic + ResponseWriter" where
  "SendDirectory z entry w r =
     (let w = (case Entry entry of
                 Some f \<Rightarrow> w @ [Header_Set ''Last-Modified'' (TimeFormat (Modified f))]
               | None \<Rightarrow> w)
      in case ReadDir (File entry) of
           Inl p \<Rightarrow> Inl p
         | Inr (Inl err) \<Rightarrow> Inr (w @ [Error (Error_string err) StatusInternalServerError])
         | Inr (Inr entries) \<Rightarrow>
             Inr (w @ [Header_Set ''content-type'' (Str ''text/html; charset=utf-8''),
                       ExecuteTemplate ''dir.html'' (URL_Path r) entries]))"

text \<open>
  The server: the registry of opened archives, and the objects they point to.
  \<^verbatim>\<open>archives\<close> maps a path to a \<^verbatim>\<open>*zipFS\<close>; a pointer is the position of the object in
  \<open>heap\<close>, where \<^verbatim>\<open>newZipFS\<close> allocates at the end. \<open>opened\<close> is not a field of the
  program: it logs the paths that \<^verbatim>\<open>zip.OpenReader\<close> opened successfully.
\<close>

record ZipServer =
  archives :: "string \<rightharpoonup> nat"
  index :: string
  browse :: bool
  heap :: "zipFS list"
  opened :: "string list"

text \<open>\<^verbatim>\<open>NewZipServer\<close>, with the values of the flags \<^verbatim>\<open>-index\<close> and \<^verbatim>\<open>-browse\<close>.\<close>

definition NewZipServer :: "string \<Rightarrow> bool \<Rightarrow> ZipServer" where
  "NewZipServer ix br = \<lparr>archives = Map.empty, index = ix, browse = br, heap = [], opened = []\<rparr>"

text \<open>What \<^verbatim>\<open>zip.OpenReader(path)\<close> returns: the disk, which is not changed by the server.\<close>

type_synonym disk = "string \<Rightarrow> error + zip_reader"

text \<open>The three critical sections of \<^verbatim>\<open>getArchive\<close>, and the function as a whole.\<close>

definition getArchive_lookup :: "ZipServer \<Rightarrow> string \<Rightarrow> nat option" where
  "getArchive_lookup z p = archives z p"

definition getArchive_open :: "disk \<Rightarrow> ZipServer \<Rightarrow> string \<Rightarrow> (error + nat) \<times> ZipServer" where
  "getArchive_open OpenReader z p =
     (case OpenReader p of
        Inl err \<Rightarrow> (Inl err, z)
      | Inr rc \<Rightarrow>
          (Inr (length (heap z)), z\<lparr>heap := heap z @ [newZipFS rc], opened := opened z @ [p]\<rparr>))"

definition getArchive_store :: "ZipServer \<Rightarrow> string \<Rightarrow> nat \<Rightarrow> ZipServer" where
  "getArchive_store z p zf = z\<lparr>archives := (archives z)(p \<mapsto> zf)\<rparr>"

definition getArchive :: "disk \<Rightarrow> ZipServer \<Rightarrow> string \<Rightarrow> (error + nat) \<times> ZipServer" where
  "getArchive OpenReader z p =
     (case getArchive_lookup z p of
        Some zf \<Rightarrow> (Inr zf, z)
      | None \<Rightarrow>
         (case getArchive_open OpenReader z p of
            (Inl err, z) \<Rightarrow> (Inl err, z)
          | (Inr zf, z) \<Rightarrow> (Inr zf, getArchive_store z p zf)))"

text \<open>
  \<^verbatim>\<open>ZipServer.ServeHTTP\<close>. The result is a panic, or the server and the calls made on
  the response writer.
\<close>

definition ServeHTTP ::
  "disk \<Rightarrow> mime_table \<Rightarrow> ZipServer \<Rightarrow> request \<Rightarrow> panic + (ZipServer \<times> ResponseWriter)" where
  "ServeHTTP OpenReader tbl z r =
     (let w = [] in
      case getArchive OpenReader z (SCRIPT_FILENAME r) of
        (Inl err, z) \<Rightarrow> Inr (z, w @ [Error (Error_string err) StatusNotFound])
      | (Inr zf, z) \<Rightarrow>
         let orig_path = PATH_TRANSLATED r;
             p = Trim orig_path ''/'';
             p = (if p = [] then ''.'' else p);
             send = (\<lambda>e. case SendFile tbl (heap z ! zf) e w r of
                            Inl pn \<Rightarrow> Inl pn
                          | Inr (zfs, w) \<Rightarrow> Inr (z\<lparr>heap := (heap z)[zf := zfs]\<rparr>, w))
         in
         (case FindRaw (Reader (heap z ! zf)) p of
            Inl pn \<Rightarrow> Inl pn
          | Inr (Inl err) \<Rightarrow> Inr (z, w @ [Error (Error_string err) StatusNotFound])
          | Inr (Inr entry) \<Rightarrow>
             let is_dir = is_ReadDirFile (File entry);
                 index_entry =
                   (if HasSuffix orig_path ''/'' \<and> index z \<noteq> [] \<and> is_dir
                    then (case FindRaw (Reader (heap z ! zf)) (Join p (index z)) of
                            Inl pn \<Rightarrow> Inl pn
                          | Inr (Inl err) \<Rightarrow> Inr None
                          | Inr (Inr ie) \<Rightarrow> Inr (Some ie))
                    else Inr None)
             in
             (case index_entry of
                Inl pn \<Rightarrow> Inl pn
              | Inr (Some ie) \<Rightarrow> send ie
              | Inr None \<Rightarrow>
                  if is_dir \<and> \<not> HasSuffix orig_path ''/'' then
                    Inr (z, w @ [Redirect (URL_Path r @ ''/'') StatusMovedPermanently])
                  else if HasSuffix orig_path ''/'' \<and> \<not> is_dir then
                    Inr (z, w @ [Error ''not found'' StatusNotFound])
                  else if is_dir then
                    (case SendDirectory (heap z ! zf) entry w r of
                       Inl pn \<Rightarrow> Inl pn
                     | Inr w \<Rightarrow> Inr (z, w))
                  else send entry)))"

text \<open>
  The name that \<^verbatim>\<open>ServeHTTP\<close> looks up: \<^verbatim>\<open>PATH_TRANSLATED\<close> without its leading and
  trailing slashes, and \<^verbatim>\<open>.\<close> when nothing is left.
\<close>

definition lookup_name :: "request \<Rightarrow> string" where
  "lookup_name r = (let p = Trim (PATH_TRANSLATED r) ''/'' in if p = [] then ''.'' else p)"

text \<open>
  \<^verbatim>\<open>RespondWith\<close> of main.go, the handler body of the earlier server, whose file
  branch guards against a nil \<^verbatim>\<open>entry.Entry\<close> by \<^verbatim>\<open>panic("impossible")\<close>.
\<close>

definition RespondWith ::
  "mime_table \<Rightarrow> zipFS \<Rightarrow> ZipEntry \<Rightarrow> ResponseWriter \<Rightarrow> request
     \<Rightarrow> panic + (zipFS \<times> ResponseWriter)" where
  "RespondWith tbl z entry w r =
     (let w = (case Entry entry of
                 Some f \<Rightarrow> w @ [Header_Set ''Last-Modified'' (TimeFormat (Modified f))]
               | None \<Rightarrow> w)
      in
      if is_ReadDirFile (File entry) then
        if \<not> HasSuffix (URL_Path r) ''/'' then
          Inr (z, w @ [Redirect (URL_Path r @ ''/'') StatusMovedPermanently])
        else
          (case ReadDir (File entry) of
             Inl p \<Rightarrow> Inl p
           | Inr (Inl err) \<Rightarrow> Inr (z, w @ [Error (Error_string err) StatusInternalServerError])
           | Inr (Inr entries) \<Rightarrow>
               Inr (z, w @ [Header_Set ''content-type'' (Str ''text/html; charset=utf-8''),
                            ExecuteTemplate ''dir.html'' (URL_Path r) entries]))
      else
        (case Entry entry of
           None \<Rightarrow> Inl (PanicString ''impossible'')
         | Some f \<Rightarrow>
            (case GetMime tbl z f of
               Inl p \<Rightarrow> Inl p
             | Inr (ctype, z) \<Rightarrow>
                 let w = w @ [Header_Set ''Content-Type'' (Str ctype)] in
                 if Method f = Deflate \<and> Contains (Accept_Encoding r) ''gzip'' then
                   let w = w @ [Header_Set ''Content-Encoding'' (Str ''gzip'')];
                       w = w @ [Write gzip_header];
                       mtime = Modified f;
                       w = w @ [Write (le32 (ucast mtime))];
                       w = w @ [Write [0x00, 0xff]]
                   in
                   (case OpenRaw f of
                      Inl err \<Rightarrow>
                        Inr (z, w @ [Error (Error_string err) StatusInternalServerError])
                    | Inr src \<Rightarrow>
                        let w = w @ [Write src];
                            w = w @ [Write (le32 (CRC32 f) @
                                      le32 (ucast (UncompressedSize64 f mod 0x100000000)))]
                        in Inr (z, w))
                 else Inr (z, w @ [Write (Read_all (File entry))]))))"

section \<open>Concurrent calls\<close>

text \<open>
  Each request is served by its own goroutine. \<^verbatim>\<open>GetMime\<close> and \<^verbatim>\<open>getArchive\<close> touch
  the shared maps only inside their critical sections (between \<^verbatim>\<open>RLock\<close> and
  \<^verbatim>\<open>RUnlock\<close>, or \<^verbatim>\<open>Lock\<close> and \<^verbatim>\<open>Unlock\<close>), and hold no lock in between. A call is
  therefore a sequence of atomic steps, and concurrent calls are an interleaving of
  their steps, chosen by a schedule: the list of the threads that move, in order.
\<close>

text \<open>
  Where a call of \<^verbatim>\<open>GetMime\<close> stands: before the lookup (line 242); after a lookup
  that missed (line 247); with the type computed and not yet stored (before line 250
  or 263); returned; or panicked.
\<close>

datatype GetMime_pc =
    GM_start
  | GM_missed
  | GM_computed string
  | GM_returned string
  | GM_panicked error

fun GetMime_step :: "mime_table \<Rightarrow> zip_file \<Rightarrow> GetMime_pc \<Rightarrow> zipFS \<Rightarrow> GetMime_pc \<times> zipFS" where
  "GetMime_step TypeByExtension f GM_start z =
     (case mimeCache z f of Some x \<Rightarrow> (GM_returned x, z) | None \<Rightarrow> (GM_missed, z))"
| "GetMime_step TypeByExtension f GM_missed z =
     (let ctype = TypeByExtension (Ext (Name f)) in
      if ctype \<noteq> '''' then (GM_computed ctype, z)
      else (case Open f of
              Inl err \<Rightarrow> (GM_panicked err, z)
            | Inr r \<Rightarrow>
                let chunk = take 512 r;
                    ctype = DetectContentType chunk
                in (GM_computed ctype, z\<lparr>sniffed := sniffed z @ [f]\<rparr>)))"
| "GetMime_step TypeByExtension f (GM_computed ctype) z =
     (GM_returned ctype, z\<lparr>mimeCache := (mimeCache z)(f \<mapsto> ctype)\<rparr>)"
| "GetMime_step TypeByExtension f (GM_returned ctype) z = (GM_returned ctype, z)"
| "GetMime_step TypeByExtension f (GM_panicked err) z = (GM_panicked err, z)"

text \<open>Threads that each call \<^verbatim>\<open>GetMime\<close> on the same \<^verbatim>\<open>zipFS\<close>, run by a schedule.\<close>

fun GetMime_run ::
  "mime_table \<Rightarrow> nat list \<Rightarrow> (zip_file \<times> GetMime_pc) list \<times> zipFS
     \<Rightarrow> (zip_file \<times> GetMime_pc) list \<times> zipFS" where
  "GetMime_run tbl [] c = c"
| "GetMime_run tbl (i # sched) (ts, z) =
     (if i < length ts
      then (case GetMime_step tbl (fst (ts ! i)) (snd (ts ! i)) z of
              (pc, z') \<Rightarrow> GetMime_run tbl sched (ts[i := (fst (ts ! i), pc)], z'))
      else GetMime_run tbl sched (ts, z))"

text \<open>Calls of \<^verbatim>\<open>GetMime\<close> one after the other; a call that panics leaves the cache as it was.\<close>

fun GetMime_calls :: "mime_table \<Rightarrow> zipFS \<Rightarrow> zip_file list \<Rightarrow> zipFS" where
  "GetMime_calls tbl z [] = z"
| "GetMime_calls tbl z (f # fs) =
     (case GetMime tbl z f of
        Inl p \<Rightarrow> GetMime_calls tbl z fs
      | Inr (ctype, z') \<Rightarrow> GetMime_calls tbl z' fs)"

text \<open>
  The type that resolution computes for an entry when it does not find it cached;
  \<open>None\<close> when it panics.
\<close>

definition resolve :: "mime_table \<Rightarrow> zip_file \<Rightarrow> string option" where
  "resolve tbl f =
     (let ctype = tbl (Ext (Name f)) in
      if ctype \<noteq> [] then Some ctype
      else (case Open f of Inl err \<Rightarrow> None | Inr r \<Rightarrow> Some (DetectContentType (take 512 r))))"

text \<open>
  The invariant of concurrent resolution: the cache, and every thread that has computed
  or returned a type, hold the type that resolution computes for the entry.
\<close>

definition GetMime_inv :: "mime_table \<Rightarrow> (zip_file \<times> GetMime_pc) list \<times> zipFS \<Rightarrow> bool" where
  "GetMime_inv tbl c =
     ((\<forall>f x. mimeCache (snd c) f = Some x \<longrightarrow> resolve tbl f = Some x) \<and>
      (\<forall>t \<in> set (fst c). \<forall>ctype.
          snd t = GM_computed ctype \<or> snd t = GM_returned ctype \<longrightarrow>
          resolve tbl (fst t) = Some ctype))"

text \<open>
  The invariant of calls that run one after the other: no entry was sniffed twice, and
  every entry that was sniffed is in the cache.
\<close>

definition sniffed_ok :: "zipFS \<Rightarrow> bool" where
  "sniffed_ok z = (distinct (sniffed z) \<and> (\<forall>f \<in> set (sniffed z). mimeCache z f \<noteq> None))"

text \<open>
  Where a call of \<^verbatim>\<open>getArchive\<close> stands: before the lookup (line 74); after a lookup
  that missed (line 79); with the archive opened and not yet stored (line 85); returned.
\<close>

datatype getArchive_pc =
    GA_start
  | GA_missed
  | GA_opened nat
  | GA_returned "error + nat"

fun getArchive_step ::
  "disk \<Rightarrow> string \<Rightarrow> getArchive_pc \<Rightarrow> ZipServer \<Rightarrow> getArchive_pc \<times> ZipServer" where
  "getArchive_step OpenReader p GA_start z =
     (case getArchive_lookup z p of
        Some zf \<Rightarrow> (GA_returned (Inr zf), z)
      | None \<Rightarrow> (GA_missed, z))"
| "getArchive_step OpenReader p GA_missed z =
     (case getArchive_open OpenReader z p of
        (Inl err, z) \<Rightarrow> (GA_returned (Inl err), z)
      | (Inr zf, z) \<Rightarrow> (GA_opened zf, z))"
| "getArchive_step OpenReader p (GA_opened zf) z =
     (GA_returned (Inr zf), getArchive_store z p zf)"
| "getArchive_step OpenReader p (GA_returned res) z = (GA_returned res, z)"


section \<open>What a request's Accept-Encoding accepts\<close>

text \<open>
  The reading of "the client accepts gzip" that the choice of the delivery mode is
  compared with: content negotiation as HTTP defines it. The header value is a
  comma-separated list of codings, each with optional parameters after semicolons; a
  weight \<^verbatim>\<open>q=0\<close> (also written \<^verbatim>\<open>0.0\<close>, \<^verbatim>\<open>0.00\<close>, \<^verbatim>\<open>0.000\<close>) refuses the coding; names
  are compared without regard to case. gzip is accepted when it is listed and not
  refused, or when it is not listed and \<^verbatim>\<open>*\<close> is listed and not refused.
\<close>

fun split_on :: "char \<Rightarrow> string \<Rightarrow> string list" where
  "split_on sep [] = [[]]"
| "split_on sep (c # s) =
     (if c = sep then [] # split_on sep s
      else (case split_on sep s of [] \<Rightarrow> [[c]] | x # xs \<Rightarrow> (c # x) # xs))"

definition to_lower :: "char \<Rightarrow> char" where
  "to_lower c =
     (if (0x41 :: nat) \<le> of_char c \<and> of_char c \<le> (0x5A :: nat)
      then char_of (of_char c + (32 :: nat)) else c)"

definition trim_ows :: "string \<Rightarrow> string" where
  "trim_ows s = Trim s [CHR '' '', CHR 0x09]"

definition qvalue_zero :: "string \<Rightarrow> bool" where
  "qvalue_zero v =
     (case v of
        [] \<Rightarrow> False
      | c # cs \<Rightarrow>
          c = CHR ''0'' \<and>
          (case cs of [] \<Rightarrow> True | d # ds \<Rightarrow> d = CHR ''.'' \<and> list_all (\<lambda>x. x = CHR ''0'') ds))"

definition refused :: "string list \<Rightarrow> bool" where
  "refused params =
     list_ex (\<lambda>p. HasPrefix (map to_lower (trim_ows p)) ''q='' \<and>
                  qvalue_zero (drop 2 (trim_ows p))) params"

definition coding :: "string list \<Rightarrow> string" where
  "coding item = (case item of [] \<Rightarrow> [] | c # params \<Rightarrow> map to_lower (trim_ows c))"

definition accepts_gzip :: "string \<Rightarrow> bool" where
  "accepts_gzip ae =
     (let items = map (split_on CHR '';'') (split_on CHR '','' ae);
          gz = filter (\<lambda>item. coding item = ''gzip'') items;
          star = filter (\<lambda>item. coding item = ''*'') items
      in if gz \<noteq> [] then list_ex (\<lambda>item. \<not> refused (tl item)) gz
         else list_ex (\<lambda>item. \<not> refused (tl item)) star)"

section \<open>Sample archive entries and requests\<close>

text \<open>A deflated text file of more than 4 GiB (so that its size wraps in the trailer).\<close>

definition f0 :: zip_file where
  "f0 = \<lparr>Name = ''a.txt'', Method = 8, Modified = 0x01020304, CRC32 = 0xAABBCCDD,
          UncompressedSize64 = 0x100000005, headerOffset = 0, ModeIsDir = False,
          OpenRaw = Inr [1, 2, 3],
          Open = Inr [0x68, 0x69]\<rparr>"

text \<open>A deflated entry whose raw stream cannot be opened.\<close>

definition f1 :: zip_file where
  "f1 = \<lparr>Name = ''b.txt'', Method = 8, Modified = 0x01020304, CRC32 = 0xAABBCCDD,
          UncompressedSize64 = 2, headerOffset = 64, ModeIsDir = False,
          OpenRaw = Inl (GoError ''read error''),
          Open = Inr [0x68, 0x69]\<rparr>"

text \<open>A stored (uncompressed) entry.\<close>

definition f2 :: zip_file where
  "f2 = \<lparr>Name = ''c.txt'', Method = 0, Modified = 0x01020304, CRC32 = 0xAABBCCDD,
          UncompressedSize64 = 2, headerOffset = 128, ModeIsDir = False,
          OpenRaw = Inr [0x68, 0x69],
          Open = Inr [0x68, 0x69]\<rparr>"

definition text_plain :: mime_table where
  "text_plain ext = ''text/plain''"

definition r_gzip :: request where
  "r_gzip = \<lparr>URL_Path = ''/a.txt'', Accept_Encoding = ''gzip, deflate'',
             SCRIPT_FILENAME = ''/srv/a.zip'', PATH_TRANSLATED = ''/a.txt''\<rparr>"

text \<open>
  An archive with three files and no directory entries of its own: the directories
  \<open>docs\<close> and \<open>html\<close> exist only as prefixes.
\<close>

definition a_readme :: zip_file where
  "a_readme = \<lparr>Name = ''docs/readme.txt'', Method = 0, Modified = 0x5F000000, CRC32 = 0x11223344,
          UncompressedSize64 = 2, headerOffset = 0, ModeIsDir = False,
          OpenRaw = Inr [0x68, 0x69], Open = Inr [0x68, 0x69]\<rparr>"

definition a_index :: zip_file where
  "a_index = \<lparr>Name = ''docs/index.html'', Method = 8, Modified = 0x5F000001, CRC32 = 0x55667788,
          UncompressedSize64 = 3, headerOffset = 100, ModeIsDir = False,
          OpenRaw = Inr [0x4b, 0x4c, 0x04, 0x00], Open = Inr [0x3c, 0x70, 0x3e]\<rparr>"

definition a_page :: zip_file where
  "a_page = \<lparr>Name = ''html/page.html'', Method = 0, Modified = 0x5F000002, CRC32 = 0x99AABBCC,
          UncompressedSize64 = 3, headerOffset = 200, ModeIsDir = False,
          OpenRaw = Inr [0x3c, 0x70, 0x3e], Open = Inr [0x3c, 0x70, 0x3e]\<rparr>"

definition ar0 :: zip_reader where
  "ar0 = \<lparr>Files = [a_readme, a_index, a_page]\<rparr>"

definition disk0 :: disk where
  "disk0 p = (if p = ''/srv/a.zip'' then Inr ar0
              else Inl (GoError (''open '' @ p @ '': no such file or directory'')))"

text \<open>A table of extensions, and a server that has not opened any archive yet.\<close>

definition mime0 :: mime_table where
  "mime0 ext = (if ext = ''.html'' then ''text/html; charset=utf-8''
                else if ext = ''.txt'' then ''text/plain; charset=utf-8'' else [])"

definition srv0 :: "string \<Rightarrow> ZipServer" where
  "srv0 ix = NewZipServer ix True"

definition req :: "string \<Rightarrow> string \<Rightarrow> request" where
  "req p ae = \<lparr>URL_Path = ''/a.zip'' @ p, Accept_Encoding = ae,
              SCRIPT_FILENAME = ''/srv/a.zip'', PATH_TRANSLATED = p\<rparr>"

text \<open>The server after it has opened the sample archive, and two resolved entries.\<close>

definition srv1 :: "string \<Rightarrow> ZipServer" where
  "srv1 ix = \<lparr>archives = [''/srv/a.zip'' \<mapsto> 0], index = ix, browse = True,
              heap = [newZipFS ar0], opened = [''/srv/a.zip'']\<rparr>"

definition dir_docs :: ZipEntry where
  "dir_docs = \<lparr>File = openDir \<lparr>name = ''docs'', file' = None, isDir = True, isDup = False\<rparr>
                 [\<lparr>name = ''docs/index.html'', file' = Some a_index, isDir = False, isDup = False\<rparr>,
                  \<lparr>name = ''docs/readme.txt'', file' = Some a_readme, isDir = False, isDup = False\<rparr>],
               Entry = None\<rparr>"


definition file_readme :: ZipEntry where
  "file_readme = \<lparr>File = checksumReader (Some a_readme) [0x68, 0x69], Entry = Some a_readme\<rparr>"

definition dir_html :: ZipEntry where
  "dir_html = \<lparr>File = openDir \<lparr>name = ''html'', file' = None, isDir = True, isDup = False\<rparr>
                 [\<lparr>name = ''html/page.html'', file' = Some a_page, isDir = False, isDup = False\<rparr>],
               Entry = None\<rparr>"

text \<open>An empty file and a binary file, both without an extension.\<close>

definition f_empty :: zip_file where
  "f_empty = \<lparr>Name = ''LOCK'', Method = 0, Modified = 0x5F000003, CRC32 = 0,
          UncompressedSize64 = 0, headerOffset = 300, ModeIsDir = False,
          OpenRaw = Inr [], Open = Inr []\<rparr>"

definition f_bin :: zip_file where
  "f_bin = \<lparr>Name = ''data'', Method = 0, Modified = 0x5F000004, CRC32 = 0x0A0B0C0D,
          UncompressedSize64 = 3, headerOffset = 400, ModeIsDir = False,
          OpenRaw = Inr [0, 1, 2], Open = Inr [0, 1, 2]\<rparr>"

definition zfs_lock :: zipFS where
  "zfs_lock = newZipFS \<lparr>Files = [f_empty, f_bin]\<rparr>"

text \<open>
  The entry \<open>f0\<close> as resolved, a request that refuses gzip, and one that accepts it
  in upper case.
\<close>

definition file_f0 :: ZipEntry where
  "file_f0 = \<lparr>File = checksumReader (Some f0) [0x68, 0x69], Entry = Some f0\<rparr>"

definition r_refuse :: request where
  "r_refuse = \<lparr>URL_Path = ''/a.txt'', Accept_Encoding = ''gzip;q=0'',
               SCRIPT_FILENAME = ''/srv/a.zip'', PATH_TRANSLATED = ''/a.txt''\<rparr>"

definition r_upper :: request where
  "r_upper = \<lparr>URL_Path = ''/a.txt'', Accept_Encoding = ''GZIP'',
              SCRIPT_FILENAME = ''/srv/a.zip'', PATH_TRANSLATED = ''/a.txt''\<rparr>"

section \<open>Properties\<close>

lemma unat_ucast_mod:
  "unat (ucast (x :: 'a::len word) :: 'b::len word) = unat x mod 2 ^ LENGTH('b)"
  by (simp add: unsigned_ucast_eq take_bit_eq_mod)

lemma le_bytes_4:
  "le_bytes 4 n = [n mod 256, n div 256 mod 256, n div 65536 mod 256, n div 16777216 mod 256]"
proof -
  have "le_bytes (Suc (Suc (Suc (Suc 0)))) n =
        [n mod 256, n div 256 mod 256, n div 256 div 256 mod 256,
         n div 256 div 256 div 256 mod 256]"
    by simp
  moreover have "Suc (Suc (Suc (Suc 0))) = 4" by simp
  ultimately show ?thesis by (simp add: div_mult2_eq[symmetric] del: le_bytes.simps)
qed

lemma unat_byte_of:
  "unat (ucast (drop_bit k (v :: 32 word)) :: byte) = unat v div 2 ^ k mod 256"
proof -
  have "unat (ucast (drop_bit k v) :: byte) = drop_bit k (unat v) mod 256"
    by (simp only: unat_ucast_mod unat_drop_bit_eq) simp
  then show ?thesis by (simp add: drop_bit_eq_div)
qed

lemma le32_le_bytes: "map unat (le32 v) = le_bytes 4 (unat v)"
  using unat_byte_of[of 8 v] unat_byte_of[of 16 v] unat_byte_of[of 24 v]
  by (simp add: le32_def le_bytes_4 unat_ucast_mod)

lemma written_append: "written (w @ w') = written w @ written w'"
  by (induction w rule: written.induct) simp_all

subsection \<open>C1: the bytes of a passthrough delivery\<close>

text \<open>
  C1. When \<^verbatim>\<open>SendFile\<close> delivers an entry in passthrough mode (the entry is deflated,
  the request's Accept-Encoding contains "gzip", content-type resolution returns and the
  raw stream opens), the calls it makes are the three header settings followed only by
  writes, and the bytes written are exactly: the fixed bytes 1f 8b 08 00 (magic, method,
  flags), the modification time modulo \<open>2^32\<close> as four bytes little-endian, the two
  bytes 00 ff, the raw payload of the entry unchanged, the CRC-32 of the entry as four
  bytes little-endian, and the uncompressed size modulo \<open>2^32\<close> as four bytes
  little-endian.
\<close>

theorem SendFile_passthrough_bytes:
  assumes "Entry entry = Some f"
    and "Method f = Deflate" and "Contains (Accept_Encoding r) ''gzip''"
    and "OpenRaw f = Inr payload"
    and "GetMime tbl z f = Inr (ctype, z')"
  shows "\<exists>chunks.
     SendFile tbl z entry w r =
       Inr (z', w @ [Header_Set ''Last-Modified'' (TimeFormat (Modified f)),
                     Header_Set ''Content-Type'' (Str ctype),
                     Header_Set ''Content-Encoding'' (Str ''gzip'')] @ map Write chunks) \<and>
     map unat (concat chunks) =
       [0x1f, 0x8b, 0x08, 0x00] @ le_bytes 4 (unat (Modified f) mod 2 ^ 32) @ [0x00, 0xff] @
       map unat payload @
       le_bytes 4 (unat (CRC32 f)) @ le_bytes 4 (unat (UncompressedSize64 f) mod 2 ^ 32)"
proof -
  let ?chunks = "[gzip_header, le32 (ucast (Modified f)), [0x00, 0xff], payload,
                  le32 (CRC32 f) @ le32 (ucast (UncompressedSize64 f mod 0x100000000))]"
  have run: "SendFile tbl z entry w r =
       Inr (z', w @ [Header_Set ''Last-Modified'' (TimeFormat (Modified f)),
                     Header_Set ''Content-Type'' (Str ctype),
                     Header_Set ''Content-Encoding'' (Str ''gzip'')] @ map Write ?chunks)"
    using assms by (simp add: SendFile_def)
  have m: "unat (ucast (Modified f) :: 32 word) = unat (Modified f) mod 2 ^ 32"
    by (simp add: unat_ucast_mod)
  have s: "unat (ucast (UncompressedSize64 f mod 0x100000000) :: 32 word)
             = unat (UncompressedSize64 f) mod 2 ^ 32"
    by (simp add: unat_ucast_mod unat_mod)
  have "map unat (concat ?chunks) =
       [0x1f, 0x8b, 0x08, 0x00] @ le_bytes 4 (unat (Modified f) mod 2 ^ 32) @ [0x00, 0xff] @
       map unat payload @
       le_bytes 4 (unat (CRC32 f)) @ le_bytes 4 (unat (UncompressedSize64 f) mod 2 ^ 32)"
    by (simp add: gzip_header_def le32_le_bytes m s del: le_bytes.simps)
  with run show ?thesis by blast
qed

theorem SendFile_passthrough_bytes_witness:
  "Entry \<lparr>File = checksumReader (Some f0) [0x68, 0x69], Entry = Some f0\<rparr> = Some f0 \<and>
   Method f0 = Deflate \<and> Contains ''gzip, deflate'' ''gzip'' \<and> OpenRaw f0 = Inr [1, 2, 3] \<and>
   GetMime (\<lambda>e. ''text/plain'') (newZipFS \<lparr>Files = [f0]\<rparr>) f0 =
     Inr (''text/plain'', (newZipFS \<lparr>Files = [f0]\<rparr>)\<lparr>mimeCache := [f0 \<mapsto> ''text/plain'']\<rparr>) \<and>
   (\<exists>chunks.
     SendFile (\<lambda>e. ''text/plain'') (newZipFS \<lparr>Files = [f0]\<rparr>)
        \<lparr>File = checksumReader (Some f0) [0x68, 0x69], Entry = Some f0\<rparr> []
        \<lparr>URL_Path = ''/a.txt'', Accept_Encoding = ''gzip, deflate'',
          SCRIPT_FILENAME = ''/srv/a.zip'', PATH_TRANSLATED = ''/a.txt''\<rparr> =
       Inr ((newZipFS \<lparr>Files = [f0]\<rparr>)\<lparr>mimeCache := [f0 \<mapsto> ''text/plain'']\<rparr>,
            [Header_Set ''Last-Modified'' (TimeFormat 0x01020304),
             Header_Set ''Content-Type'' (Str ''text/plain''),
             Header_Set ''Content-Encoding'' (Str ''gzip'')] @ map Write chunks) \<and>
     map unat (concat chunks) =
       [0x1f, 0x8b, 0x08, 0x00, 4, 3, 2, 1, 0x00, 0xff, 1, 2, 3, 0xDD, 0xCC, 0xBB, 0xAA, 5, 0, 0, 0])"
proof -
  have g: "GetMime (\<lambda>e. ''text/plain'') (newZipFS \<lparr>Files = [f0]\<rparr>) f0 =
     Inr (''text/plain'', (newZipFS \<lparr>Files = [f0]\<rparr>)\<lparr>mimeCache := [f0 \<mapsto> ''text/plain'']\<rparr>)"
    by (simp add: GetMime_def newZipFS_def Let_def)
  have c: "Contains ''gzip, deflate'' ''gzip''" by simp
  have h: "Entry \<lparr>File = checksumReader (Some f0) [0x68, 0x69], Entry = Some f0\<rparr> = Some f0"
          "Method f0 = Deflate" "OpenRaw f0 = Inr [1, 2, 3]"
    by (simp_all add: f0_def Deflate_def)
  show ?thesis
    using SendFile_passthrough_bytes [where entry = "\<lparr>File = checksumReader (Some f0) [0x68, 0x69], Entry = Some f0\<rparr>"
        and f = f0 and payload = "[1, 2, 3]" and tbl = "\<lambda>e. ''text/plain''"
        and z = "newZipFS \<lparr>Files = [f0]\<rparr>" and ctype = "''text/plain''"
        and z' = "(newZipFS \<lparr>Files = [f0]\<rparr>)\<lparr>mimeCache := [f0 \<mapsto> ''text/plain'']\<rparr>"
        and w = "[]"
        and r = "\<lparr>URL_Path = ''/a.txt'', Accept_Encoding = ''gzip, deflate'',
          SCRIPT_FILENAME = ''/srv/a.zip'', PATH_TRANSLATED = ''/a.txt''\<rparr>", OF h(1) h(2) _ h(3) g]
      g c h
    by (simp add: le_bytes_4 f0_def del: le_bytes.simps)
qed

subsection \<open>C2: the choice between plain and passthrough delivery\<close>

lemma SendFile_plain:
  assumes "Entry entry = Some f" and "GetMime tbl z f = Inr (ctype, z')"
    and "\<not> (Method f = Deflate \<and> Contains (Accept_Encoding r) ''gzip'')"
  shows "SendFile tbl z entry w r =
           Inr (z', w @ [Header_Set ''Last-Modified'' (TimeFormat (Modified f)),
                         Header_Set ''Content-Type'' (Str ctype),
                         Write (Read_all (File entry))])"
  using assms by (auto simp add: SendFile_def)

lemma SendFile_passthrough:
  assumes "Entry entry = Some f" and "GetMime tbl z f = Inr (ctype, z')"
    and "Method f = Deflate" and "Contains (Accept_Encoding r) ''gzip''"
  shows "SendFile tbl z entry w r =
           Inr (z', w @ [Header_Set ''Last-Modified'' (TimeFormat (Modified f)),
                         Header_Set ''Content-Type'' (Str ctype),
                         Header_Set ''Content-Encoding'' (Str ''gzip''),
                         Write gzip_header,
                         Write (le32 (ucast (Modified f))),
                         Write [0x00, 0xff]] @
                        (case OpenRaw f of
                           Inl err \<Rightarrow> [Error (Error_string err) 500]
                         | Inr src \<Rightarrow>
                             [Write src,
                              Write (le32 (CRC32 f) @
                                     le32 (ucast (UncompressedSize64 f mod 0x100000000)))]))"
  using assms
  by (cases "OpenRaw f") (simp_all add: SendFile_def StatusInternalServerError_def)

text \<open>
  C2 as stated fails in both directions, because \<^verbatim>\<open>SendFile\<close> does not read the
  header as a list of codings: it looks for the letters "gzip" in it. The request that
  refuses gzip by \<^verbatim>\<open>gzip;q=0\<close> is sent the gzip container of the deflated entry
  \<open>f0\<close>; the request that accepts gzip as \<^verbatim>\<open>GZIP\<close> is sent the decompressed bytes.
\<close>

theorem SendFile_accept_encoding_counterexample:
  "\<not> accepts_gzip (Accept_Encoding r_refuse) \<and> Method f0 = Deflate \<and>
   SendFile text_plain (newZipFS \<lparr>Files = [f0]\<rparr>) file_f0 [] r_refuse =
     Inr ((newZipFS \<lparr>Files = [f0]\<rparr>)\<lparr>mimeCache := [f0 \<mapsto> ''text/plain'']\<rparr>,
          [Header_Set ''Last-Modified'' (TimeFormat 0x01020304),
           Header_Set ''Content-Type'' (Str ''text/plain''),
           Header_Set ''Content-Encoding'' (Str ''gzip''),
           Write [0x1f, 0x8b, 0x08, 0x00], Write [4, 3, 2, 1], Write [0x00, 0xff],
           Write [1, 2, 3], Write [0xDD, 0xCC, 0xBB, 0xAA, 5, 0, 0, 0]]) \<and>
   accepts_gzip (Accept_Encoding r_upper) \<and>
   SendFile text_plain (newZipFS \<lparr>Files = [f0]\<rparr>) file_f0 [] r_upper =
     Inr ((newZipFS \<lparr>Files = [f0]\<rparr>)\<lparr>mimeCache := [f0 \<mapsto> ''text/plain'']\<rparr>,
          [Header_Set ''Last-Modified'' (TimeFormat 0x01020304),
           Header_Set ''Content-Type'' (Str ''text/plain''),
           Write [0x68, 0x69]])"
proof -
  have a: "\<not> accepts_gzip (Accept_Encoding r_refuse)"
    by code_simp
  have b: "accepts_gzip (Accept_Encoding r_upper)"
    by code_simp
  have c: "Contains (Accept_Encoding r_refuse) ''gzip''"
    by (simp add: r_refuse_def)
  have d: "\<not> Contains (Accept_Encoding r_upper) ''gzip''"
    by (simp add: r_upper_def)
  have m: "Method f0 = Deflate"
    by (simp add: f0_def Deflate_def)
  have g: "GetMime text_plain (newZipFS \<lparr>Files = [f0]\<rparr>) f0 =
     Inr (''text/plain'', (newZipFS \<lparr>Files = [f0]\<rparr>)\<lparr>mimeCache := [f0 \<mapsto> ''text/plain'']\<rparr>)"
    by (simp add: GetMime_def newZipFS_def Let_def text_plain_def)
  have e: "Entry file_f0 = Some f0" "Read_all (File file_f0) = [0x68, 0x69]"
    by (simp_all add: file_f0_def)
  have v: "Modified f0 = 0x01020304" "OpenRaw f0 = Inr [1, 2, 3]" "CRC32 f0 = 0xAABBCCDD"
          "UncompressedSize64 f0 = 0x100000005"
    by (simp_all add: f0_def)
  have p: "SendFile text_plain (newZipFS \<lparr>Files = [f0]\<rparr>) file_f0 [] r_refuse =
     Inr ((newZipFS \<lparr>Files = [f0]\<rparr>)\<lparr>mimeCache := [f0 \<mapsto> ''text/plain'']\<rparr>,
          [Header_Set ''Last-Modified'' (TimeFormat 0x01020304),
           Header_Set ''Content-Type'' (Str ''text/plain''),
           Header_Set ''Content-Encoding'' (Str ''gzip''),
           Write [0x1f, 0x8b, 0x08, 0x00], Write [4, 3, 2, 1], Write [0x00, 0xff],
           Write [1, 2, 3], Write [0xDD, 0xCC, 0xBB, 0xAA, 5, 0, 0, 0]])"
    using SendFile_passthrough [OF e(1) g m c, of "[]"]
    by (simp add: v gzip_header_def le32_def)
  have q: "SendFile text_plain (newZipFS \<lparr>Files = [f0]\<rparr>) file_f0 [] r_upper =
     Inr ((newZipFS \<lparr>Files = [f0]\<rparr>)\<lparr>mimeCache := [f0 \<mapsto> ''text/plain'']\<rparr>,
          [Header_Set ''Last-Modified'' (TimeFormat 0x01020304),
           Header_Set ''Content-Type'' (Str ''text/plain''),
           Write [0x68, 0x69]])"
    using SendFile_plain [OF e(1) g, of r_upper "[]"] d
    by (simp add: v e)
  from a m p b q show ?thesis
    by simp
qed

text \<open>
  C2, amended. For a file entry whose content type resolves, \<^verbatim>\<open>SendFile\<close> delivers in
  passthrough mode if and only if the entry's method is Deflate and the value of the
  request's Accept-Encoding header contains the substring "gzip" (in lower case,
  whatever its weight): it then sets Content-Encoding: gzip and writes the gzip header,
  followed by the raw payload and the trailer, or by the error call when the raw stream
  does not open. In every other case its calls are exactly: Last-Modified,
  Content-Type, and one copy of the bytes that the opened (decompressing) handle
  yields, with no Content-Encoding header.
\<close>

theorem SendFile_mode:
  assumes "Entry entry = Some f" and "GetMime tbl z f = Inr (ctype, z')"
  shows "\<exists>cs. SendFile tbl z entry w r = Inr (z', w @ cs) \<and>
     ((Header_Set ''Content-Encoding'' (Str ''gzip'') \<in> set cs) =
        (Method f = Deflate \<and> Contains (Accept_Encoding r) ''gzip'')) \<and>
     cs = (if Method f = Deflate \<and> Contains (Accept_Encoding r) ''gzip''
           then [Header_Set ''Last-Modified'' (TimeFormat (Modified f)),
                 Header_Set ''Content-Type'' (Str ctype),
                 Header_Set ''Content-Encoding'' (Str ''gzip''),
                 Write gzip_header,
                 Write (le32 (ucast (Modified f))),
                 Write [0x00, 0xff]] @
                (case OpenRaw f of
                   Inl err \<Rightarrow> [Error (Error_string err) 500]
                 | Inr src \<Rightarrow>
                     [Write src,
                      Write (le32 (CRC32 f) @
                             le32 (ucast (UncompressedSize64 f mod 0x100000000)))])
           else [Header_Set ''Last-Modified'' (TimeFormat (Modified f)),
                 Header_Set ''Content-Type'' (Str ctype),
                 Write (Read_all (File entry))])"
proof (cases "Method f = Deflate \<and> Contains (Accept_Encoding r) ''gzip''")
  case True
  then have m: "Method f = Deflate" and c: "Contains (Accept_Encoding r) ''gzip''"
    by simp_all
  from SendFile_passthrough [OF assms m c, of w] True show ?thesis
    by simp
next
  case False
  with SendFile_plain [OF assms, of r w] show ?thesis
    by auto
qed

theorem SendFile_mode_witness:
  "Entry file_f0 = Some f0 \<and>
   GetMime text_plain (newZipFS \<lparr>Files = [f0]\<rparr>) f0 =
     Inr (''text/plain'', (newZipFS \<lparr>Files = [f0]\<rparr>)\<lparr>mimeCache := [f0 \<mapsto> ''text/plain'']\<rparr>) \<and>
   Method f0 = Deflate \<and> Contains (Accept_Encoding r_gzip) ''gzip'' \<and>
   SendFile text_plain (newZipFS \<lparr>Files = [f0]\<rparr>) file_f0 [] r_gzip =
     Inr ((newZipFS \<lparr>Files = [f0]\<rparr>)\<lparr>mimeCache := [f0 \<mapsto> ''text/plain'']\<rparr>,
          [Header_Set ''Last-Modified'' (TimeFormat 0x01020304),
           Header_Set ''Content-Type'' (Str ''text/plain''),
           Header_Set ''Content-Encoding'' (Str ''gzip''),
           Write [0x1f, 0x8b, 0x08, 0x00], Write [4, 3, 2, 1], Write [0x00, 0xff],
           Write [1, 2, 3], Write [0xDD, 0xCC, 0xBB, 0xAA, 5, 0, 0, 0]]) \<and>
   Entry \<lparr>File = checksumReader (Some f2) [0x68, 0x69], Entry = Some f2\<rparr> = Some f2 \<and>
   GetMime text_plain (newZipFS \<lparr>Files = [f2]\<rparr>) f2 =
     Inr (''text/plain'', (newZipFS \<lparr>Files = [f2]\<rparr>)\<lparr>mimeCache := [f2 \<mapsto> ''text/plain'']\<rparr>) \<and>
   Method f2 \<noteq> Deflate \<and>
   SendFile text_plain (newZipFS \<lparr>Files = [f2]\<rparr>)
       \<lparr>File = checksumReader (Some f2) [0x68, 0x69], Entry = Some f2\<rparr> [] r_gzip =
     Inr ((newZipFS \<lparr>Files = [f2]\<rparr>)\<lparr>mimeCache := [f2 \<mapsto> ''text/plain'']\<rparr>,
          [Header_Set ''Last-Modified'' (TimeFormat 0x01020304),
           Header_Set ''Content-Type'' (Str ''text/plain''),
           Write [0x68, 0x69]])"
proof -
  have g0: "GetMime text_plain (newZipFS \<lparr>Files = [f0]\<rparr>) f0 =
     Inr (''text/plain'', (newZipFS \<lparr>Files = [f0]\<rparr>)\<lparr>mimeCache := [f0 \<mapsto> ''text/plain'']\<rparr>)"
    by (simp add: GetMime_def newZipFS_def Let_def text_plain_def)
  have g2: "GetMime text_plain (newZipFS \<lparr>Files = [f2]\<rparr>) f2 =
     Inr (''text/plain'', (newZipFS \<lparr>Files = [f2]\<rparr>)\<lparr>mimeCache := [f2 \<mapsto> ''text/plain'']\<rparr>)"
    by (simp add: GetMime_def newZipFS_def Let_def text_plain_def)
  have e0: "Entry file_f0 = Some f0"
    by (simp add: file_f0_def)
  have e2: "Entry \<lparr>File = checksumReader (Some f2) [0x68, 0x69], Entry = Some f2\<rparr> = Some f2"
    by simp
  have m0: "Method f0 = Deflate"
    by (simp add: f0_def Deflate_def)
  have m2: "Method f2 \<noteq> Deflate"
    by (simp add: f2_def Deflate_def)
  have c: "Contains (Accept_Encoding r_gzip) ''gzip''"
    by (simp add: r_gzip_def)
  have v: "Modified f0 = 0x01020304" "OpenRaw f0 = Inr [1, 2, 3]" "CRC32 f0 = 0xAABBCCDD"
          "UncompressedSize64 f0 = 0x100000005" "Modified f2 = 0x01020304"
    by (simp_all add: f0_def f2_def)
  from SendFile_mode [OF e0 g0, where r = r_gzip and w = "[]"] m0 c
  have p: "SendFile text_plain (newZipFS \<lparr>Files = [f0]\<rparr>) file_f0 [] r_gzip =
     Inr ((newZipFS \<lparr>Files = [f0]\<rparr>)\<lparr>mimeCache := [f0 \<mapsto> ''text/plain'']\<rparr>,
          [Header_Set ''Last-Modified'' (TimeFormat 0x01020304),
           Header_Set ''Content-Type'' (Str ''text/plain''),
           Header_Set ''Content-Encoding'' (Str ''gzip''),
           Write [0x1f, 0x8b, 0x08, 0x00], Write [4, 3, 2, 1], Write [0x00, 0xff],
           Write [1, 2, 3], Write [0xDD, 0xCC, 0xBB, 0xAA, 5, 0, 0, 0]])"
    by (auto simp add: v gzip_header_def le32_def)
  from SendFile_mode [OF e2 g2, where r = r_gzip and w = "[]"] m2
  have q: "SendFile text_plain (newZipFS \<lparr>Files = [f2]\<rparr>)
       \<lparr>File = checksumReader (Some f2) [0x68, 0x69], Entry = Some f2\<rparr> [] r_gzip =
     Inr ((newZipFS \<lparr>Files = [f2]\<rparr>)\<lparr>mimeCache := [f2 \<mapsto> ''text/plain'']\<rparr>,
          [Header_Set ''Last-Modified'' (TimeFormat 0x01020304),
           Header_Set ''Content-Type'' (Str ''text/plain''),
           Write [0x68, 0x69]])"
    by (auto simp add: v)
  from e0 g0 m0 c p e2 g2 m2 q show ?thesis
    by simp
qed

subsection \<open>C9: a raw stream that cannot be opened\<close>

text \<open>
  C9, evaluated where it fails. The entry \<open>f1\<close> is deflated, the request accepts gzip,
  and \<^verbatim>\<open>OpenRaw\<close> returns an error. \<^verbatim>\<open>SendFile\<close> has by then written the ten bytes
  of the gzip header to the body, which fixed the status at 200; the call of
  \<^verbatim>\<open>http.Error\<close> with status 500 comes after them.
\<close>

theorem SendFile_OpenRaw_failure:
  "SendFile text_plain (newZipFS \<lparr>Files = [f1]\<rparr>)
      \<lparr>File = checksumReader (Some f1) [0x68, 0x69], Entry = Some f1\<rparr> [] r_gzip =
     Inr ((newZipFS \<lparr>Files = [f1]\<rparr>)\<lparr>mimeCache := [f1 \<mapsto> ''text/plain'']\<rparr>,
          [Header_Set ''Last-Modified'' (TimeFormat 0x01020304),
           Header_Set ''Content-Type'' (Str ''text/plain''),
           Header_Set ''Content-Encoding'' (Str ''gzip''),
           Write [0x1f, 0x8b, 0x08, 0x00], Write [4, 3, 2, 1], Write [0x00, 0xff],
           Error ''read error'' 500]) \<and>
   status [Header_Set ''Last-Modified'' (TimeFormat 0x01020304),
           Header_Set ''Content-Type'' (Str ''text/plain''),
           Header_Set ''Content-Encoding'' (Str ''gzip''),
           Write [0x1f, 0x8b, 0x08, 0x00], Write [4, 3, 2, 1], Write [0x00, 0xff],
           Error ''read error'' 500] = 200 \<and>
   written [Header_Set ''Last-Modified'' (TimeFormat 0x01020304),
           Header_Set ''Content-Type'' (Str ''text/plain''),
           Header_Set ''Content-Encoding'' (Str ''gzip''),
           Write [0x1f, 0x8b, 0x08, 0x00], Write [4, 3, 2, 1], Write [0x00, 0xff],
           Error ''read error'' 500] = [0x1f, 0x8b, 0x08, 0x00, 4, 3, 2, 1, 0x00, 0xff]"
  by (simp add: SendFile_def GetMime_def newZipFS_def text_plain_def f1_def r_gzip_def
      Deflate_def gzip_header_def le32_def StatusInternalServerError_def StatusOK_def Let_def)

subsection \<open>The file list: only directories lack a \<^verbatim>\<open>file\<close>\<close>

lemma mark_dup_has_file:
  assumes "list_all has_file fl"
  shows "list_all has_file (mark_dup idx fl)"
proof (cases "idx < length fl")
  case True
  then have "has_file (fl ! idx)"
    using assms by (simp add: list_all_length)
  then have "has_file ((fl ! idx)\<lparr>isDup := True\<rparr>)"
    by (simp add: has_file_def)
  with assms show ?thesis
    unfolding mark_dup_def list_all_iff
    by (metis insertE set_update_subset_insert subsetD)
next
  case False
  then show ?thesis using assms by (simp add: mark_dup_def list_update_beyond)
qed

lemma has_file_Some: "has_file \<lparr>name = n, file' = Some f, isDir = d, isDup = u\<rparr>"
  by (simp add: has_file_def)

lemma has_file_dir: "has_file \<lparr>name = n, file' = x, isDir = True, isDup = u\<rparr>"
  by (simp add: has_file_def)

lemma add_file_has_file:
  assumes "list_all has_file (fileList st)"
  shows "list_all has_file (fileList (add_file st f))"
  using assms
  by (auto simp add: add_file_def Let_def has_file_Some mark_dup_has_file split: option.splits)

lemma foldl_add_file_has_file:
  "list_all has_file (fileList st) \<Longrightarrow> list_all has_file (fileList (foldl add_file st fs))"
  by (induction fs arbitrary: st) (simp_all add: add_file_has_file)

lemma add_dir_has_file:
  assumes "list_all has_file (fileList st)"
  shows "list_all has_file (fileList (add_dir st d))"
  using assms
  by (auto simp add: add_dir_def has_file_dir mark_dup_has_file split: option.splits)

lemma foldl_add_dir_has_file:
  "list_all has_file (fileList st) \<Longrightarrow> list_all has_file (fileList (foldl add_dir st ds))"
  by (induction ds arbitrary: st) (simp_all add: add_dir_has_file)

lemma initFileList_has_file: "list_all has_file (initFileList r)"
proof -
  let ?st = "foldl add_file
               \<lparr>fileList = [], files = Map.empty, knownDirs = Map.empty, dirs = []\<rparr> (Files r)"
  have "list_all has_file (fileList ?st)"
    by (rule foldl_add_file_has_file) simp
  then have "list_all has_file (fileList (foldl add_dir ?st (dirs ?st)))"
    by (rule foldl_add_dir_has_file)
  then show ?thesis
    by (simp add: initFileList_def Let_def list_all_iff)
qed

lemma openLookup_has_file:
  assumes "openLookup r n = Some e"
  shows "has_file e"
proof (cases "n = ''.''")
  case True
  with assms show ?thesis by (auto simp add: openLookup_def dotFile_def has_file_def)
next
  case False
  with assms have "e \<in> set (initFileList r)"
    by (auto simp add: openLookup_def find_Some_iff)
  with initFileList_has_file [of r] show ?thesis by (simp add: list_all_iff)
qed

lemma Reader_Open_no_panic: "Reader_Open r n \<noteq> Inl pn"
  using openLookup_has_file [of r n]
  by (auto simp add: Reader_Open_def has_file_def split: option.splits sum.splits)

lemma FindRaw_no_panic: "FindRaw r n \<noteq> Inl pn"
  using Reader_Open_no_panic [of r n]
  by (auto simp add: FindRaw_def split: sum.splits)

lemma FindRaw_file:
  assumes "FindRaw r n = Inr (Inr entry)" and "\<not> is_ReadDirFile (File entry)"
  shows "\<exists>f rc. entry = \<lparr>File = checksumReader (Some f) rc, Entry = Some f\<rparr> \<and> Open f = Inr rc"
  using assms
  by (auto simp add: FindRaw_def Reader_Open_def split: sum.splits option.splits if_splits)

subsection \<open>The sample archive, evaluated\<close>

lemma getArchive_srv0: "getArchive disk0 (srv0 ix) ''/srv/a.zip'' = (Inr 0, srv1 ix)"
  by (simp add: getArchive_def getArchive_lookup_def getArchive_open_def getArchive_store_def
      srv0_def NewZipServer_def srv1_def disk0_def)

lemma Reader_srv1: "Reader (heap (srv1 ix) ! 0) = ar0"
  by (simp add: srv1_def newZipFS_def)

lemma FindRaw_docs: "FindRaw ar0 ''docs'' = Inr (Inr dir_docs)"
  by code_simp


lemma FindRaw_readme: "FindRaw ar0 ''docs/readme.txt'' = Inr (Inr file_readme)"
  by code_simp

subsection \<open>C3: a directory requested without a trailing slash\<close>


text \<open>
  C3. When the archive opens, the looked-up name resolves to a directory (a handle that
  is a \<^verbatim>\<open>ReadDirFile\<close>) and the request path \<^verbatim>\<open>PATH_TRANSLATED\<close> has no trailing slash,
  the only call \<^verbatim>\<open>ServeHTTP\<close> makes on the response is the redirect to the request's
  URL path followed by a slash, with status 301 (moved permanently): no listing is
  rendered and no file bytes are written.
\<close>

theorem ServeHTTP_directory_redirect:
  assumes "getArchive OpenReader z (SCRIPT_FILENAME r) = (Inr zf, z')"
    and "FindRaw (Reader (heap z' ! zf)) (lookup_name r) = Inr (Inr entry)"
    and "is_ReadDirFile (File entry)"
    and "\<not> HasSuffix (PATH_TRANSLATED r) ''/''"
  shows "\<exists>w. ServeHTTP OpenReader tbl z r = Inr (z', w) \<and>
             w = [Redirect (URL_Path r @ ''/'') 301] \<and> status w = 301 \<and>
             \<not> list_ex sends_content w"
  using assms
  by (simp add: ServeHTTP_def lookup_name_def Let_def StatusMovedPermanently_def)

theorem ServeHTTP_directory_redirect_witness:
  "getArchive disk0 (srv0 ''index.html'') (SCRIPT_FILENAME (req ''/docs'' [])) =
     (Inr 0, srv1 ''index.html'') \<and>
   FindRaw (Reader (heap (srv1 ''index.html'') ! 0)) (lookup_name (req ''/docs'' [])) =
     Inr (Inr dir_docs) \<and>
   is_ReadDirFile (File dir_docs) \<and> \<not> HasSuffix (PATH_TRANSLATED (req ''/docs'' [])) ''/'' \<and>
   ServeHTTP disk0 mime0 (srv0 ''index.html'') (req ''/docs'' []) =
     Inr (srv1 ''index.html'', [Redirect ''/a.zip/docs/'' 301])"
proof -
  have a: "getArchive disk0 (srv0 ''index.html'') (SCRIPT_FILENAME (req ''/docs'' [])) =
     (Inr 0, srv1 ''index.html'')"
    by (simp add: req_def getArchive_srv0)
  have n: "lookup_name (req ''/docs'' []) = ''docs''"
    by (simp add: lookup_name_def req_def Trim_def)
  have b: "FindRaw (Reader (heap (srv1 ''index.html'') ! 0)) (lookup_name (req ''/docs'' [])) =
     Inr (Inr dir_docs)"
    by (simp only: n Reader_srv1 FindRaw_docs)
  have c: "is_ReadDirFile (File dir_docs)"
    by (simp add: dir_docs_def)
  have d: "\<not> HasSuffix (PATH_TRANSLATED (req ''/docs'' [])) ''/''"
    by (simp add: req_def HasSuffix_def)
  from ServeHTTP_directory_redirect [OF a b c d, of mime0] a b c d show ?thesis
    by (simp add: req_def)
qed

subsection \<open>C5: a file requested with a trailing slash\<close>

text \<open>
  C5. When the archive opens, the looked-up name resolves to a file (a handle that is
  not a \<^verbatim>\<open>ReadDirFile\<close>) and \<^verbatim>\<open>PATH_TRANSLATED\<close> ends in a slash, \<^verbatim>\<open>ServeHTTP\<close> returns
  without a panic and its only call on the response is \<^verbatim>\<open>http.Error\<close> with the text
  "not found" and status 404: no file bytes are written. (The index file is only looked
  for when the name resolves to a directory, so it plays no part here.)
\<close>

theorem ServeHTTP_file_trailing_slash:
  assumes "getArchive OpenReader z (SCRIPT_FILENAME r) = (Inr zf, z')"
    and "FindRaw (Reader (heap z' ! zf)) (lookup_name r) = Inr (Inr entry)"
    and "\<not> is_ReadDirFile (File entry)"
    and "HasSuffix (PATH_TRANSLATED r) ''/''"
  shows "\<exists>w. ServeHTTP OpenReader tbl z r = Inr (z', w) \<and>
             w = [Error ''not found'' 404] \<and> status w = 404 \<and>
             \<not> list_ex sends_content w"
  using assms
  by (simp add: ServeHTTP_def lookup_name_def Let_def StatusNotFound_def)

theorem ServeHTTP_file_trailing_slash_witness:
  "getArchive disk0 (srv0 ''index.html'') (SCRIPT_FILENAME (req ''/docs/readme.txt/'' [])) =
     (Inr 0, srv1 ''index.html'') \<and>
   FindRaw (Reader (heap (srv1 ''index.html'') ! 0)) (lookup_name (req ''/docs/readme.txt/'' [])) =
     Inr (Inr file_readme) \<and>
   \<not> is_ReadDirFile (File file_readme) \<and>
   HasSuffix (PATH_TRANSLATED (req ''/docs/readme.txt/'' [])) ''/'' \<and>
   ServeHTTP disk0 mime0 (srv0 ''index.html'') (req ''/docs/readme.txt/'' []) =
     Inr (srv1 ''index.html'', [Error ''not found'' 404])"
proof -
  have a: "getArchive disk0 (srv0 ''index.html'') (SCRIPT_FILENAME (req ''/docs/readme.txt/'' [])) =
     (Inr 0, srv1 ''index.html'')"
    by (simp add: req_def getArchive_srv0)
  have n: "lookup_name (req ''/docs/readme.txt/'' []) = ''docs/readme.txt''"
    by (simp add: lookup_name_def req_def Trim_def)
  have b: "FindRaw (Reader (heap (srv1 ''index.html'') ! 0))
             (lookup_name (req ''/docs/readme.txt/'' [])) = Inr (Inr file_readme)"
    by (simp only: n Reader_srv1 FindRaw_readme)
  have c: "\<not> is_ReadDirFile (File file_readme)"
    by (simp add: file_readme_def)
  have d: "HasSuffix (PATH_TRANSLATED (req ''/docs/readme.txt/'' [])) ''/''"
    by (simp add: req_def HasSuffix_def)
  from ServeHTTP_file_trailing_slash [OF a b c d, of mime0] a b c d show ?thesis
    by simp
qed

subsection \<open>C4: the index file of a directory\<close>

lemma GetMime_returns:
  assumes "Open f = Inr rc"
  shows "\<exists>ctype z'. GetMime tbl z f = Inr (ctype, z')"
  using assms by (simp add: GetMime_def Let_def split: option.splits)

lemma SendFile_no_listing:
  assumes "SendFile tbl z entry w r = Inr (z', w')"
  shows "\<exists>cs. w' = w @ cs \<and> \<not> list_ex is_listing cs"
  using assms
  by (auto simp add: SendFile_def Let_def split: option.splits sum.splits if_splits)





subsection \<open>\<^verbatim>\<open>RespondWith\<close> of main.go\<close>

lemma RespondWith_directory_redirect:
  assumes "is_ReadDirFile (File entry)" and "\<not> HasSuffix (URL_Path r) ''/''"
  shows "\<exists>hs. RespondWith tbl z entry w r =
               Inr (z, w @ hs @ [Redirect (URL_Path r @ ''/'') 301]) \<and>
              \<not> list_ex sends_content hs"
  using assms
  by (cases "Entry entry") (simp_all add: RespondWith_def StatusMovedPermanently_def)

lemma RespondWith_file_eq_SendFile:
  assumes "\<not> is_ReadDirFile (File entry)" and "Entry entry = Some f"
  shows "RespondWith tbl z entry w r = SendFile tbl z entry w r"
  using assms
  by (cases "GetMime tbl z f"; cases "Method f = Deflate \<and> Contains (Accept_Encoding r) ''gzip''")
     (auto simp add: RespondWith_def SendFile_def Let_def split: sum.splits prod.splits)

subsection \<open>C10: nil metadata and the file-serving code\<close>

text \<open>
  What holds of C10: an entry that \<^verbatim>\<open>FindRaw\<close> resolves and whose handle is not a
  directory carries its \<^verbatim>\<open>*zip.File\<close>, so only directories have a nil \<^verbatim>\<open>Entry\<close>; the
  guard \<^verbatim>\<open>panic("impossible")\<close> of \<^verbatim>\<open>RespondWith\<close> is never reached for a resolved
  entry; and \<^verbatim>\<open>SendFile\<close> returns for a resolved entry that is not a directory.
\<close>

lemma FindRaw_nil_is_dir:
  assumes "FindRaw r n = Inr (Inr entry)" and "Entry entry = None"
  shows "is_ReadDirFile (File entry)"
proof (rule ccontr)
  assume "\<not> is_ReadDirFile (File entry)"
  from FindRaw_file [OF assms(1) this] assms(2) show False
    by auto
qed

lemma stat_all_panic: "stat_all dir es = Inl p \<Longrightarrow> p = NilDereference"
  by (induction es) (auto simp add: stat_def split: sum.splits option.splits if_splits)

lemma RespondWith_never_impossible:
  assumes "FindRaw rd n = Inr (Inr entry)"
  shows "RespondWith tbl z entry w r \<noteq> Inl (PanicString ''impossible'')"
proof (cases "is_ReadDirFile (File entry)")
  case True
  then obtain e fs where "File entry = openDir e fs"
    by (cases "File entry") simp_all
  then show ?thesis
    by (auto simp add: RespondWith_def Let_def dest: stat_all_panic
        split: option.splits sum.splits if_splits)
next
  case False
  from FindRaw_file [OF assms False] obtain f rc where
    e: "entry = \<lparr>File = checksumReader (Some f) rc, Entry = Some f\<rparr>" and o: "Open f = Inr rc"
    by blast
  from GetMime_returns [OF o] obtain ctype z' where "GetMime tbl z f = Inr (ctype, z')"
    by blast
  then show ?thesis
    by (simp add: RespondWith_def e Let_def split: sum.splits)
qed

lemma SendFile_file_returns:
  assumes "FindRaw rd n = Inr (Inr entry)" and "\<not> is_ReadDirFile (File entry)"
  shows "\<exists>z' w'. SendFile tbl z entry w r = Inr (z', w')"
proof -
  from FindRaw_file [OF assms] obtain f rc where
    e: "entry = \<lparr>File = checksumReader (Some f) rc, Entry = Some f\<rparr>" and o: "Open f = Inr rc"
    by blast
  from GetMime_returns [OF o] obtain ctype z' where "GetMime tbl z f = Inr (ctype, z')"
    by blast
  then show ?thesis
    by (simp add: SendFile_def e Let_def split: sum.splits)
qed

text \<open>
  C10, evaluated where it fails. The sample archive holds \<open>html/page.html\<close> and no entry
  for the directory \<open>html\<close>; the server runs with the index name \<open>html\<close>. For the
  request of the root, \<^verbatim>\<open>ServeHTTP\<close> looks up the index name, which resolves to the
  synthesized directory \<open>html\<close> with a nil \<^verbatim>\<open>Entry\<close>, and passes it to \<^verbatim>\<open>SendFile\<close>
  without testing whether it is a directory: \<^verbatim>\<open>SendFile\<close> dereferences the nil pointer.
\<close>

theorem ServeHTTP_index_directory_nil:
  "FindRaw ar0 (Join ''.'' ''html'') = Inr (Inr dir_html) \<and>
   is_ReadDirFile (File dir_html) \<and> Entry dir_html = None \<and>
   SendFile mime0 (newZipFS ar0) dir_html [] (req ''/'' []) = Inl NilDereference \<and>
   ServeHTTP disk0 mime0 (srv0 ''html'') (req ''/'' []) = Inl NilDereference"
proof -
  have j: "Join ''.'' ''html'' = ''html''"
    by code_simp
  have f: "FindRaw ar0 ''html'' = Inr (Inr dir_html)"
    by code_simp
  have d: "FindRaw ar0 ''.'' = Inr (Inr \<lparr>File = openDir dotFile (openReadDir ar0 ''.''), Entry = None\<rparr>)"
    by (simp add: FindRaw_def Reader_Open_def ValidPath_def ValidString_def openLookup_def
        dotFile_def)
  have s: "SendFile mime0 (newZipFS ar0) dir_html [] (req ''/'' []) = Inl NilDereference"
    by (simp add: SendFile_def dir_html_def)
  have "ServeHTTP disk0 mime0 (srv0 ''html'') (req ''/'' []) = Inl NilDereference"
    using getArchive_srv0 [of "''html''"] d f s
    by (simp add: ServeHTTP_def Let_def req_def srv1_def HasSuffix_def Trim_def j newZipFS_def)
  with j f s show ?thesis
    by (simp add: dir_html_def)
qed

subsection \<open>C6: the order of content-type resolution\<close>

lemma first_match_nonempty: "first_match sigs data n \<noteq> []"
  by (induction sigs) (simp_all add: Let_def)

lemma first_match_fallback:
  "list_all (\<lambda>sig. match sig data n = []) sigs \<Longrightarrow>
     first_match sigs data n = ''application/octet-stream''"
  by (induction sigs) (simp_all add: Let_def)

lemma DetectContentType_nonempty: "DetectContentType data \<noteq> []"
  by (simp add: DetectContentType_def Let_def first_match_nonempty)

lemma DetectContentType_empty: "DetectContentType [] = ''text/plain; charset=utf-8''"
  by code_simp

text \<open>
  C6 as stated fails for a file without bytes: its extension being unknown, the empty
  file \<open>f_empty\<close> is sniffed, and \<^verbatim>\<open>http.DetectContentType\<close> answers
  \<open>text/plain; charset=utf-8\<close> for no bytes, not the generic binary type.
\<close>

theorem GetMime_empty_file_counterexample:
  "mimeCache zfs_lock f_empty = None \<and> mime0 (Ext (Name f_empty)) = [] \<and>
   Open f_empty = Inr [] \<and>
   GetMime mime0 zfs_lock f_empty =
     Inr (''text/plain; charset=utf-8'',
          zfs_lock\<lparr>mimeCache := [f_empty \<mapsto> ''text/plain; charset=utf-8''],
                    sniffed := [f_empty]\<rparr>) \<and>
   ''text/plain; charset=utf-8'' \<noteq> ''application/octet-stream''"
proof -
  have e: "Ext (Name f_empty) = []"
    by code_simp
  have o: "Open f_empty = Inr []"
    by (simp add: f_empty_def)
  show ?thesis
    by (simp add: GetMime_def zfs_lock_def newZipFS_def e o mime0_def Let_def
        DetectContentType_empty)
qed

text \<open>
  C6, amended. For an entry that is not in the cache, \<^verbatim>\<open>GetMime\<close> first looks the
  extension of the name up in the table and returns the type found, without opening the
  entry. Only when the table yields nothing does it open the entry: if that fails it
  panics; otherwise it takes up to the first 512 decompressed bytes and returns what
  \<^verbatim>\<open>http.DetectContentType\<close> answers for them. That answer is never empty: it is the
  generic binary type \<open>application/octet-stream\<close> when no signature matches, and
  \<open>text/plain; charset=utf-8\<close> when there are no bytes.
\<close>

theorem GetMime_order:
  assumes "mimeCache z f = None"
  shows "(tbl (Ext (Name f)) \<noteq> [] \<longrightarrow>
            (\<exists>z'. GetMime tbl z f = Inr (tbl (Ext (Name f)), z') \<and> sniffed z' = sniffed z)) \<and>
         (tbl (Ext (Name f)) = [] \<longrightarrow>
            (\<forall>err. Open f = Inl err \<longrightarrow> GetMime tbl z f = Inl (PanicError err)) \<and>
            (\<forall>rc. Open f = Inr rc \<longrightarrow>
               (\<exists>z'. GetMime tbl z f = Inr (DetectContentType (take 512 rc), z') \<and>
                     sniffed z' = sniffed z @ [f]) \<and>
               DetectContentType (take 512 rc) \<noteq> [] \<and>
               (rc = [] \<longrightarrow> DetectContentType (take 512 rc) = ''text/plain; charset=utf-8'') \<and>
               (list_all (\<lambda>sig. match sig (take 512 rc) (length (takeWhile isWS (take 512 rc))) = [])
                  sniffSignatures \<longrightarrow>
                DetectContentType (take 512 rc) = ''application/octet-stream'')))"
proof -
  have d: "DetectContentType (take 512 rc) =
           first_match sniffSignatures (take 512 rc) (length (takeWhile isWS (take 512 rc)))" for rc
    by (simp add: DetectContentType_def sniffLen_def Let_def)
  show ?thesis
    using assms
    by (auto simp add: GetMime_def Let_def DetectContentType_empty d first_match_nonempty
        first_match_fallback)
qed

theorem GetMime_order_witness:
  "mimeCache zfs_lock f_bin = None \<and> mime0 (Ext (Name f_bin)) = [] \<and>
   Open f_bin = Inr [0, 1, 2] \<and>
   list_all (\<lambda>sig. match sig (take 512 [0, 1, 2])
                      (length (takeWhile isWS (take 512 [0, 1, 2]))) = []) sniffSignatures \<and>
   (\<exists>z'. GetMime mime0 zfs_lock f_bin = Inr (''application/octet-stream'', z') \<and>
         sniffed z' = sniffed zfs_lock @ [f_bin])"
proof -
  have c: "mimeCache zfs_lock f_bin = None"
    by (simp add: zfs_lock_def newZipFS_def)
  have e: "mime0 (Ext (Name f_bin)) = []"
    by code_simp
  have o: "Open f_bin = Inr [0, 1, 2]"
    by (simp add: f_bin_def)
  have m: "list_all (\<lambda>sig. match sig (take 512 [0, 1, 2])
                      (length (takeWhile isWS (take 512 [0, 1, 2]))) = []) sniffSignatures"
    by code_simp
  note t = GetMime_order [OF c, of mime0, THEN conjunct2, THEN mp, OF e, THEN conjunct2,
      THEN spec, of "[0, 1, 2]", THEN mp, OF o]
  from t m
  have "\<exists>z'. GetMime mime0 zfs_lock f_bin = Inr (''application/octet-stream'', z') \<and>
         sniffed z' = sniffed zfs_lock @ [f_bin]"
    by auto
  with c e o m show ?thesis
    by blast
qed

subsection \<open>C7: memoization of the content type\<close>

lemma GetMime_resolve:
  assumes "mimeCache z f = None"
  shows "GetMime tbl z f = Inr (ctype, z') \<Longrightarrow> resolve tbl f = Some ctype"
  using assms
  by (auto simp add: GetMime_def resolve_def Let_def split: sum.splits if_splits)

lemma GetMime_alone:
  "(case GetMime_step tbl f GM_start z of (pc1, z1) \<Rightarrow>
     case GetMime_step tbl f pc1 z1 of (pc2, z2) \<Rightarrow> GetMime_step tbl f pc2 z2) =
   (case GetMime tbl z f of
      Inr (ctype, z') \<Rightarrow> (GM_returned ctype, z')
    | Inl (PanicError err) \<Rightarrow> (GM_panicked err, z)
    | Inl p \<Rightarrow> (GM_missed, z))"
  by (auto simp add: GetMime_def Let_def split: option.splits sum.splits)

lemma GetMime_cached:
  assumes "GetMime tbl z f = Inr (ctype, z')"
  shows "mimeCache z' f = Some ctype"
  using assms
  by (auto simp add: GetMime_def Let_def split: option.splits sum.splits if_splits)

lemma GetMime_hit:
  assumes "mimeCache z f = Some ctype"
  shows "GetMime tbl z f = Inr (ctype, z)"
  using assms by (simp add: GetMime_def)

lemma GetMime_keeps:
  assumes "GetMime tbl z g = Inr (ctype, z')" and "mimeCache z f = Some x"
  shows "mimeCache z' f = Some x"
  using assms
  by (auto simp add: GetMime_def Let_def split: option.splits sum.splits if_splits)

lemma GetMime_sniffed:
  assumes "GetMime tbl z g = Inr (ctype, z')"
  shows "sniffed z' = sniffed z \<or> (sniffed z' = sniffed z @ [g] \<and> mimeCache z g = None)"
  using assms
  by (auto simp add: GetMime_def Let_def split: option.splits sum.splits if_splits)

lemma GetMime_sniffed_ok:
  assumes "GetMime tbl z g = Inr (ctype, z')" and "sniffed_ok z"
  shows "sniffed_ok z'"
proof -
  from GetMime_sniffed [OF assms(1)]
  show ?thesis
  proof
    assume "sniffed z' = sniffed z"
    with assms(2) GetMime_keeps [OF assms(1)] show ?thesis
      by (fastforce simp add: sniffed_ok_def)
  next
    assume a: "sniffed z' = sniffed z @ [g] \<and> mimeCache z g = None"
    with assms(2) have "g \<notin> set (sniffed z)"
      by (auto simp add: sniffed_ok_def)
    with a assms(2) GetMime_keeps [OF assms(1)] GetMime_cached [OF assms(1)] show ?thesis
      by (fastforce simp add: sniffed_ok_def)
  qed
qed

lemma GetMime_calls_sniffed_ok:
  "sniffed_ok z \<Longrightarrow> sniffed_ok (GetMime_calls tbl z fs)"
  by (induction fs arbitrary: z) (auto simp add: GetMime_sniffed_ok split: sum.splits)

lemma GetMime_step_inv:
  assumes "GetMime_inv tbl (ts, z)" and "i < length ts"
    and "GetMime_step tbl (fst (ts ! i)) (snd (ts ! i)) z = (pc, z')"
  shows "GetMime_inv tbl (ts[i := (fst (ts ! i), pc)], z')"
proof -
  let ?f = "fst (ts ! i)"
  have mem: "ts ! i \<in> set ts"
    using assms(2) by simp
  have cache: "\<forall>f x. mimeCache z f = Some x \<longrightarrow> resolve tbl f = Some x"
    and thr: "\<forall>t \<in> set ts. \<forall>c. snd t = GM_computed c \<or> snd t = GM_returned c \<longrightarrow>
                 resolve tbl (fst t) = Some c"
    using assms(1) by (simp_all add: GetMime_inv_def)
  have new: "\<forall>c. pc = GM_computed c \<or> pc = GM_returned c \<longrightarrow> resolve tbl ?f = Some c"
    using assms(3) cache thr mem
    by (cases "snd (ts ! i)")
       (auto simp add: resolve_def Let_def split: option.splits sum.splits if_splits)
  have cache': "\<forall>f x. mimeCache z' f = Some x \<longrightarrow> resolve tbl f = Some x"
    using assms(3) cache thr mem
    by (cases "snd (ts ! i)")
       (auto simp add: Let_def split: option.splits sum.splits if_splits)
  have "\<forall>t \<in> set (ts[i := (?f, pc)]). \<forall>c. snd t = GM_computed c \<or> snd t = GM_returned c \<longrightarrow>
                 resolve tbl (fst t) = Some c"
  proof
    fix t assume "t \<in> set (ts[i := (?f, pc)])"
    then have "t = (?f, pc) \<or> t \<in> set ts"
      using set_update_subset_insert [of ts i "(?f, pc)"] by auto
    with new thr show "\<forall>c. snd t = GM_computed c \<or> snd t = GM_returned c \<longrightarrow>
                 resolve tbl (fst t) = Some c"
      by auto
  qed
  with cache' show ?thesis
    by (simp add: GetMime_inv_def)
qed

lemma GetMime_run_inv:
  "GetMime_inv tbl c \<Longrightarrow> GetMime_inv tbl (GetMime_run tbl sched c)"
proof (induction sched arbitrary: c)
  case Nil
  then show ?case by simp
next
  case (Cons i sched)
  obtain ts z where c: "c = (ts, z)"
    by (cases c)
  show ?case
  proof (cases "i < length ts")
    case True
    obtain pc z' where s: "GetMime_step tbl (fst (ts ! i)) (snd (ts ! i)) z = (pc, z')"
      by (cases "GetMime_step tbl (fst (ts ! i)) (snd (ts ! i)) z")
    from GetMime_step_inv [OF Cons.prems [unfolded c] True s]
    have "GetMime_inv tbl (GetMime_run tbl sched (ts[i := (fst (ts ! i), pc)], z'))"
      by (rule Cons.IH)
    with True s show ?thesis
      by (simp add: c)
  next
    case False
    with Cons show ?thesis
      by (simp add: c)
  qed
qed

lemma GetMime_run_append:
  "GetMime_run tbl (s1 @ s2) c = GetMime_run tbl s2 (GetMime_run tbl s1 c)"
proof (induction s1 arbitrary: c)
  case Nil
  then show ?case by simp
next
  case (Cons i s1)
  obtain ts z where c: "c = (ts, z)"
    by (cases c)
  show ?case
    by (simp add: c Cons.IH split: prod.splits)
qed

lemma GetMime_step_keeps:
  assumes "GetMime_inv tbl (ts, z)" and "i < length ts"
    and "GetMime_step tbl (fst (ts ! i)) (snd (ts ! i)) z = (pc, z')"
    and "mimeCache z f = Some x"
  shows "mimeCache z' f = Some x"
proof -
  have mem: "ts ! i \<in> set ts"
    using assms(2) by simp
  have cache: "\<forall>f x. mimeCache z f = Some x \<longrightarrow> resolve tbl f = Some x"
    and thr: "\<forall>t \<in> set ts. \<forall>c. snd t = GM_computed c \<or> snd t = GM_returned c \<longrightarrow>
                 resolve tbl (fst t) = Some c"
    using assms(1) by (simp_all add: GetMime_inv_def)
  have r: "resolve tbl (fst (ts ! i)) = Some c" if "snd (ts ! i) = GM_computed c" for c
    using thr mem that by blast
  have k: "resolve tbl f = Some x"
    using cache assms(4) by blast
  show ?thesis
  proof (cases "snd (ts ! i)")
    case (GM_computed c)
    with assms(3) have z': "z' = z\<lparr>mimeCache := (mimeCache z)(fst (ts ! i) \<mapsto> c)\<rparr>"
      by auto
    show ?thesis
    proof (cases "f = fst (ts ! i)")
      case True
      with r [OF GM_computed] k have "c = x"
        by simp
      with z' True show ?thesis
        by simp
    next
      case False
      with z' assms(4) show ?thesis
        by simp
    qed
  qed (use assms(3,4) in \<open>auto simp add: Let_def split: option.splits sum.splits if_splits\<close>)
qed

lemma GetMime_run_keeps:
  "GetMime_inv tbl c \<Longrightarrow> mimeCache (snd c) f = Some x \<Longrightarrow>
     mimeCache (snd (GetMime_run tbl sched c)) f = Some x"
proof (induction sched arbitrary: c)
  case Nil
  then show ?case by simp
next
  case (Cons i sched)
  obtain ts z where c: "c = (ts, z)"
    by (cases c)
  show ?case
  proof (cases "i < length ts")
    case True
    obtain pc z' where s: "GetMime_step tbl (fst (ts ! i)) (snd (ts ! i)) z = (pc, z')"
      by (cases "GetMime_step tbl (fst (ts ! i)) (snd (ts ! i)) z")
    have i: "GetMime_inv tbl (ts[i := (fst (ts ! i), pc)], z')"
      by (rule GetMime_step_inv [OF Cons.prems(1) [unfolded c] True s])
    have k: "mimeCache z' f = Some x"
      using GetMime_step_keeps [OF Cons.prems(1) [unfolded c] True s] Cons.prems(2)
      by (simp add: c)
    from Cons.IH [OF i] k True s show ?thesis
      by (simp add: c)
  next
    case False
    with Cons show ?thesis
      by (simp add: c)
  qed
qed


lemma newZipFS_inv:
  assumes "list_all (\<lambda>t. snd t = GM_start) ts"
  shows "GetMime_inv tbl (ts, newZipFS rd)"
  using assms by (auto simp add: GetMime_inv_def newZipFS_def list_all_iff)

lemma newZipFS_sniffed_ok: "sniffed_ok (newZipFS rd)"
  by (simp add: sniffed_ok_def newZipFS_def)

text \<open>
  C7 as stated fails for calls that overlap. Two threads resolve the same entry
  \<open>f_bin\<close> (no known extension) and take their steps in turn: both look the entry up
  before either has stored a type, so both run the sniffing step. Both return the same
  type and the cache ends up with it.
\<close>

theorem GetMime_concurrent_sniff_counterexample:
  "map snd (fst (GetMime_run mime0 [0, 1, 0, 1, 0, 1]
                   ([(f_bin, GM_start), (f_bin, GM_start)], zfs_lock))) =
     [GM_returned ''application/octet-stream'', GM_returned ''application/octet-stream''] \<and>
   sniffed (snd (GetMime_run mime0 [0, 1, 0, 1, 0, 1]
                   ([(f_bin, GM_start), (f_bin, GM_start)], zfs_lock))) = [f_bin, f_bin] \<and>
   length (filter (\<lambda>g. g = f_bin)
     (sniffed (snd (GetMime_run mime0 [0, 1, 0, 1, 0, 1]
                   ([(f_bin, GM_start), (f_bin, GM_start)], zfs_lock))))) = 2"
  by code_simp

text \<open>
  C7, amended. Content-type resolution is memoized by entry identity. For any number of
  calls on one archive, started with an empty cache and interleaved in any way: two
  calls for the same entry that return, return the same string; and a value, once in
  the cache, stays there unchanged. For calls that run one after the other: the
  sniffing step runs at most once per entry, and a call that follows a call for the
  same entry returns the same string and changes nothing. (Calls for one entry that
  overlap before the first of them has stored its result may each run the sniffing
  step.)
\<close>

theorem GetMime_memoized:
  assumes "list_all (\<lambda>t. snd t = GM_start) ts"
  shows "(\<forall>sched t t' c c'.
            t \<in> set (fst (GetMime_run tbl sched (ts, newZipFS rd))) \<and>
            t' \<in> set (fst (GetMime_run tbl sched (ts, newZipFS rd))) \<and>
            fst t = fst t' \<and> snd t = GM_returned c \<and> snd t' = GM_returned c' \<longrightarrow> c = c') \<and>
         (\<forall>s1 s2 f x.
            mimeCache (snd (GetMime_run tbl s1 (ts, newZipFS rd))) f = Some x \<longrightarrow>
            mimeCache (snd (GetMime_run tbl (s1 @ s2) (ts, newZipFS rd))) f = Some x) \<and>
         (\<forall>fs. distinct (sniffed (GetMime_calls tbl (newZipFS rd) fs))) \<and>
         (\<forall>z f ctype z'. GetMime tbl z f = Inr (ctype, z') \<longrightarrow>
            GetMime tbl z' f = Inr (ctype, z'))"
proof (intro conjI allI impI)
  fix sched t t' c c'
  assume a: "t \<in> set (fst (GetMime_run tbl sched (ts, newZipFS rd))) \<and>
            t' \<in> set (fst (GetMime_run tbl sched (ts, newZipFS rd))) \<and>
            fst t = fst t' \<and> snd t = GM_returned c \<and> snd t' = GM_returned c'"
  have "GetMime_inv tbl (GetMime_run tbl sched (ts, newZipFS rd))"
    by (rule GetMime_run_inv [OF newZipFS_inv [OF assms]])
  then have "\<forall>t \<in> set (fst (GetMime_run tbl sched (ts, newZipFS rd))). \<forall>ctype.
          snd t = GM_computed ctype \<or> snd t = GM_returned ctype \<longrightarrow>
          resolve tbl (fst t) = Some ctype"
    by (simp add: GetMime_inv_def)
  with a have "resolve tbl (fst t) = Some c" and "resolve tbl (fst t') = Some c'"
    by blast+
  with a show "c = c'"
    by simp
next
  fix s1 s2 f x
  assume a: "mimeCache (snd (GetMime_run tbl s1 (ts, newZipFS rd))) f = Some x"
  have "GetMime_inv tbl (GetMime_run tbl s1 (ts, newZipFS rd))"
    by (rule GetMime_run_inv [OF newZipFS_inv [OF assms]])
  from GetMime_run_keeps [OF this a]
  show "mimeCache (snd (GetMime_run tbl (s1 @ s2) (ts, newZipFS rd))) f = Some x"
    by (simp add: GetMime_run_append)
next
  fix fs
  from GetMime_calls_sniffed_ok [OF newZipFS_sniffed_ok]
  show "distinct (sniffed (GetMime_calls tbl (newZipFS rd) fs))"
    by (simp add: sniffed_ok_def)
next
  fix z f ctype z'
  assume "GetMime tbl z f = Inr (ctype, z')"
  from GetMime_hit [OF GetMime_cached [OF this]]
  show "GetMime tbl z' f = Inr (ctype, z')" .
qed

theorem GetMime_memoized_witness:
  "list_all (\<lambda>t. snd t = GM_start) [(f_bin, GM_start), (f_bin, GM_start)] \<and>
   mimeCache (snd (GetMime_run mime0 [0, 0, 0]
       ([(f_bin, GM_start), (f_bin, GM_start)], newZipFS \<lparr>Files = [f_empty, f_bin]\<rparr>))) f_bin =
     Some ''application/octet-stream'' \<and>
   mimeCache (snd (GetMime_run mime0 ([0, 0, 0] @ [1, 1, 1])
       ([(f_bin, GM_start), (f_bin, GM_start)], newZipFS \<lparr>Files = [f_empty, f_bin]\<rparr>))) f_bin =
     Some ''application/octet-stream'' \<and>
   distinct (sniffed (GetMime_calls mime0 (newZipFS \<lparr>Files = [f_empty, f_bin]\<rparr>) [f_bin, f_bin]))"
proof -
  have h: "list_all (\<lambda>t. snd t = GM_start) [(f_bin, GM_start), (f_bin, GM_start)]"
    by simp
  have a: "mimeCache (snd (GetMime_run mime0 [0, 0, 0]
       ([(f_bin, GM_start), (f_bin, GM_start)], newZipFS \<lparr>Files = [f_empty, f_bin]\<rparr>))) f_bin =
     Some ''application/octet-stream''"
    by code_simp
  note t = GetMime_memoized [OF h, of mime0 "\<lparr>Files = [f_empty, f_bin]\<rparr>"]
  from t a have "mimeCache (snd (GetMime_run mime0 ([0, 0, 0] @ [1, 1, 1])
       ([(f_bin, GM_start), (f_bin, GM_start)], newZipFS \<lparr>Files = [f_empty, f_bin]\<rparr>))) f_bin =
     Some ''application/octet-stream''"
    by blast
  moreover from t
  have "distinct (sniffed (GetMime_calls mime0 (newZipFS \<lparr>Files = [f_empty, f_bin]\<rparr>) [f_bin, f_bin]))"
    by blast
  ultimately show ?thesis
    using h a by blast
qed

subsection \<open>C8: the archive registry\<close>

lemma getArchive_alone:
  "(case getArchive_step d p GA_start z of (pc1, z1) \<Rightarrow>
     case getArchive_step d p pc1 z1 of (pc2, z2) \<Rightarrow> getArchive_step d p pc2 z2) =
   (case getArchive d z p of (res, z') \<Rightarrow> (GA_returned res, z'))"
  by (auto simp add: getArchive_def getArchive_open_def getArchive_lookup_def
      split: option.splits sum.splits prod.splits)




end
